theory Spec2Isabelle
  imports Complex_Main
begin

section \<open>PVE backup sync to NAS: a shallow embedding of main.py\<close>

text \<open>
  The program wakes a NAS, waits until it answers, mirrors a directory to it with rsync,
  shuts it down and reports the outcome. Everything it does goes through external
  collaborators (the network, the clock, child processes, the webhook), so the embedding
  makes them explicit:
  \<^item> the answers of the collaborators are the fields of an \<open>env\<close> record;
  \<^item> the mutable part of the run (the clock, the one mutable attribute
    \<open>self.ssh_client\<close>, counters of the calls made) is a \<open>state\<close> record that every
    function takes and returns;
  \<^item> every external action is appended to the \<open>trace\<close> of the state;
  \<^item> a Python call either returns, raises an \<open>Exception\<close> (with its message) or is
    cut by \<open>KeyboardInterrupt\<close>, which \<open>except Exception\<close> does not catch.
\<close>

subsection \<open>Configuration (the dataclasses)\<close>

record NASConfig =
  mac_address :: string
  ip :: string
  ssh_user :: string
  ssh_port :: int
  ssh_key :: "string option"
  max_wait_time :: int
  ping_interval :: int
  ssh_ready_wait :: int

record BackupConfig =
  local_dir :: string
  nas_dir :: string
  rsync_options :: string

record LogConfig =
  log_file :: string
  log_level :: string

record NotificationConfig =
  enabled :: bool
  discord_webhook :: "string option"
  on_success :: bool
  on_failure :: bool

record Config =
  nas :: NASConfig
  backup :: BackupConfig
  log_cfg :: LogConfig
  notification :: NotificationConfig

subsection \<open>Results of calls, events, environment and state\<close>

datatype 'a result = Return 'a | Exception string | KeyboardInterrupt

text \<open>What a collaborator answers when it is not interrupted: a value or an exception.\<close>

datatype 'a reply = Ok 'a | Fails string

text \<open>\<open>ping3.ping\<close> returns \<open>None\<close> on a timeout and some other value otherwise.\<close>

datatype ping_value = PingNone | PingValue

datatype level = INFO | WARNING | ERROR

record payload =
  title :: string
  color :: nat
  embed_fields :: "(string \<times> string \<times> bool) list"
  timestamp :: string
  footer :: string

datatype event =
    Log level string
  | Stdout string
  | Stderr string
  | Invoke string
  | Result string bool
  | SendMagicPacket string
  | Ping string int
  | Sleep int
  | ProbeConnect string int string "string option" int
  | ProbeClose
  | SessionConnect string int string "string option" int
  | SessionExec string int
  | SessionRead
  | SessionClose
  | Popen "string list" "string option"
  | SubprocessRun "string list" int
  | Post string payload int

text \<open>
  \<open>Invoke m\<close> and \<open>Result m v\<close> are written by \<open>main\<close> around its calls of the methods
  of \<open>NASBackup\<close>; the other events are the external actions themselves, with the
  arguments the source passes.
\<close>

datatype client = SSHClient

record env =
  interrupt_at :: "nat option"
  call_time :: "nat \<Rightarrow> rat"
  send_magic_packet :: "string \<Rightarrow> unit reply"
  ping :: "nat \<Rightarrow> ping_value reply"
  probe_connect :: "nat \<Rightarrow> unit reply"
  session_connect :: "unit reply"
  exec_command :: "string \<Rightarrow> unit reply"
  exec_read :: "string \<Rightarrow> (int \<times> string \<times> string) reply"
  path_exists :: "string \<Rightarrow> bool reply"
  expanduser :: "string \<Rightarrow> string"
  popen :: "string list \<Rightarrow> string option \<Rightarrow> (string list \<times> int) reply"
  subprocess_run :: "string list \<Rightarrow> (int \<times> string) reply"
  requests_post :: "string \<Rightarrow> payload \<Rightarrow> unit reply"
  toml_load :: "string \<Rightarrow> Config reply"
  now_text :: string
  now_iso :: string
  format_duration :: "rat \<Rightarrow> string"
  traceback_text :: string

text \<open>
  \<open>interrupt_at = Some k\<close>: the user interrupts the run during its \<open>k\<close>-th external call
  (counted from 0); \<open>call_time k\<close> is how long the \<open>k\<close>-th external call takes, in seconds
  (\<open>time.sleep\<close> takes its argument instead). \<open>ping k\<close> and \<open>probe_connect k\<close> are the
  answers to the \<open>k\<close>-th liveness probe and the \<open>k\<close>-th readiness probe.
  \<open>expanduser p\<close> stands for \<open>str(Path(p).expanduser())\<close>, \<open>toml_load p\<close> for
  reading and parsing the file \<open>p\<close> into the dataclasses, \<open>now_text\<close> and \<open>now_iso\<close> for
  \<open>datetime.now()\<close> as text, \<open>format_duration d\<close> for the float formatting
  \<open>f"{d:.1f}"\<close>, and \<open>traceback_text\<close> for \<open>traceback.format_exc()\<close>.
\<close>

record state =
  clock :: rat
  trace :: "event list"
  calls :: nat
  pings :: nat
  probes :: nat
  ssh_client :: "client option"

subsection \<open>Strings\<close>

definition digit :: "nat \<Rightarrow> char" where
  "digit n = ''0123456789'' ! n"

function str_nat :: "nat \<Rightarrow> string" where
  "str_nat n = (if n < 10 then [digit n] else str_nat (n div 10) @ [digit (n mod 10)])"
  by pat_completeness auto
termination
  by (relation "measure id") auto

definition str_int :: "int \<Rightarrow> string" where
  "str_int i = (if i < 0 then CHR ''-'' # str_nat (nat (- i)) else str_nat (nat i))"

text \<open>
  A string is the list of the UTF-8 bytes of the Python string, so one character may take
  several bytes. \<open>white_space\<close> lists the characters at which \<open>str.split()\<close> splits
  (those for which \<open>str.isspace()\<close> holds): U+0009 to U+000D, U+001C to U+0020, U+0085,
  U+00A0, U+1680, U+2000 to U+200A, U+2028, U+2029, U+202F, U+205F and U+3000.
\<close>

definition white_space :: "string list" where
  "white_space =
     [[CHR 0x09], [CHR 0x0A], [CHR 0x0B], [CHR 0x0C], [CHR 0x0D],
      [CHR 0x1C], [CHR 0x1D], [CHR 0x1E], [CHR 0x1F], [CHR 0x20],
      [CHR 0xC2, CHR 0x85], [CHR 0xC2, CHR 0xA0],
      [CHR 0xE1, CHR 0x9A, CHR 0x80],
      [CHR 0xE2, CHR 0x80, CHR 0x80], [CHR 0xE2, CHR 0x80, CHR 0x81],
      [CHR 0xE2, CHR 0x80, CHR 0x82], [CHR 0xE2, CHR 0x80, CHR 0x83],
      [CHR 0xE2, CHR 0x80, CHR 0x84], [CHR 0xE2, CHR 0x80, CHR 0x85],
      [CHR 0xE2, CHR 0x80, CHR 0x86], [CHR 0xE2, CHR 0x80, CHR 0x87],
      [CHR 0xE2, CHR 0x80, CHR 0x88], [CHR 0xE2, CHR 0x80, CHR 0x89],
      [CHR 0xE2, CHR 0x80, CHR 0x8A],
      [CHR 0xE2, CHR 0x80, CHR 0xA8], [CHR 0xE2, CHR 0x80, CHR 0xA9],
      [CHR 0xE2, CHR 0x80, CHR 0xAF], [CHR 0xE2, CHR 0x81, CHR 0x9F],
      [CHR 0xE3, CHR 0x80, CHR 0x80]]"

text \<open>The number of bytes of the white-space character that a string starts with, or 0.\<close>

definition space_len :: "string \<Rightarrow> nat" where
  "space_len s =
     (case find (\<lambda>w. take (length w) s = w) white_space of
        None \<Rightarrow> 0
      | Some w \<Rightarrow> length w)"

text \<open>
  \<open>str.split()\<close> without arguments: the words between runs of white space. \<open>w\<close> is
  the word read so far and \<open>k\<close> the number of bytes still to skip of the white-space
  character being read.
\<close>

fun split_from :: "string \<Rightarrow> nat \<Rightarrow> string \<Rightarrow> string list" where
  "split_from w k [] = (if w = [] then [] else [w])"
| "split_from w k (c # cs) =
     (if 0 < k then split_from w (k - 1) cs
      else if 0 < space_len (c # cs) then
        (if w = [] then split_from [] (space_len (c # cs) - 1) cs
         else w # split_from [] (space_len (c # cs) - 1) cs)
      else split_from (w @ [c]) 0 cs)"

definition str_split :: "string \<Rightarrow> string list" where
  "str_split s = split_from [] 0 s"

text \<open>
  \<open>s[:n]\<close>, the first \<open>n\<close> characters: a byte \<open>10xxxxxx\<close> continues the character
  before it.
\<close>

definition is_continuation :: "char \<Rightarrow> bool" where
  "is_continuation c = (0x80 \<le> (of_char c :: nat) \<and> (of_char c :: nat) < 0xC0)"

fun take_chars :: "nat \<Rightarrow> string \<Rightarrow> string" where
  "take_chars n [] = []"
| "take_chars n (c # cs) =
     (if is_continuation c then c # take_chars n cs
      else (case n of 0 \<Rightarrow> [] | Suc m \<Rightarrow> c # take_chars m cs))"

fun join :: "string \<Rightarrow> string list \<Rightarrow> string" where
  "join sep [] = []"
| "join sep [x] = x"
| "join sep (x # y # ys) = x @ sep @ join sep (y # ys)"

text \<open>\<open>needle in haystack\<close> on strings.\<close>

fun contains :: "string \<Rightarrow> string \<Rightarrow> bool" where
  "contains [] needle = (needle = [])"
| "contains (c # cs) needle = (take (length needle) (c # cs) = needle \<or> contains cs needle)"

text \<open>Truthiness of an optional string: \<open>None\<close> and the empty string are false.\<close>

fun truthy :: "string option \<Rightarrow> bool" where
  "truthy None = False"
| "truthy (Some s) = (s \<noteq> [])"

subsection \<open>Primitive actions\<close>

definition initial :: state where
  "initial = \<lparr>clock = 0, trace = [], calls = 0, pings = 0, probes = 0, ssh_client = None\<rparr>"

definition emit :: "event \<Rightarrow> state \<Rightarrow> state" where
  "emit e s = s\<lparr>trace := trace s @ [e]\<rparr>"

text \<open>A call of \<open>logging.info\<close>, \<open>logging.warning\<close> or \<open>logging.error\<close>.\<close>

definition logging :: "level \<Rightarrow> string \<Rightarrow> state \<Rightarrow> state" where
  "logging l m s = emit (Log l m) s"

text \<open>
  An external call: it is recorded, it is the call the interrupt hits when its index is
  \<open>interrupt_at\<close>, and otherwise it takes its time and returns or raises what the
  collaborator answers.
\<close>

definition external :: "env \<Rightarrow> event \<Rightarrow> 'a reply \<Rightarrow> state \<Rightarrow> 'a result \<times> state" where
  "external env e r s =
     (let s' = (emit e s)\<lparr>calls := Suc (calls s)\<rparr> in
      if interrupt_at env = Some (calls s) then (KeyboardInterrupt, s')
      else (case r of
              Ok v \<Rightarrow> (Return v, s'\<lparr>clock := clock s' + call_time env (calls s)\<rparr>)
            | Fails m \<Rightarrow> (Exception m, s'\<lparr>clock := clock s' + call_time env (calls s)\<rparr>)))"

text \<open>\<open>time.sleep(n)\<close>: a negative length raises \<open>ValueError\<close>.\<close>

definition sleep :: "env \<Rightarrow> int \<Rightarrow> state \<Rightarrow> unit result \<times> state" where
  "sleep env n s =
     (if n < 0 then (Exception ''sleep length must be non-negative'', s)
      else (let s' = (emit (Sleep n) s)\<lparr>calls := Suc (calls s)\<rparr> in
            if interrupt_at env = Some (calls s) then (KeyboardInterrupt, s')
            else (Return (), s'\<lparr>clock := clock s' + of_int n\<rparr>)))"

subsection \<open>class NASBackup\<close>

text \<open>
  The attributes set by \<open>__init__\<close>, but \<open>self.ssh_client\<close>, which is the only one a
  method assigns and lives in the state. \<open>_setup_logging\<close> configures the logging
  library and is not modelled.
\<close>

record NASBackup =
  self_nas :: NASConfig
  self_backup :: BackupConfig
  self_log :: LogConfig
  nas_ip :: string
  nas_mac :: string
  self_ssh_user :: string
  self_ssh_port :: int
  self_ssh_key :: "string option"

definition NASBackup_init ::
  "env \<Rightarrow> NASConfig \<Rightarrow> BackupConfig \<Rightarrow> LogConfig \<Rightarrow> state \<Rightarrow> NASBackup \<times> state" where
  "NASBackup_init env n b l s =
     (\<lparr>self_nas = n, self_backup = b, self_log = l,
       nas_ip = ip n, nas_mac = mac_address n,
       self_ssh_user = ssh_user n, self_ssh_port = ssh_port n,
       self_ssh_key = (case ssh_key n of
                         None \<Rightarrow> None
                       | Some k \<Rightarrow> if k = [] then None else Some (expanduser env k))\<rparr>,
      s\<lparr>ssh_client := None\<rparr>)"

definition send_wol :: "NASBackup \<Rightarrow> env \<Rightarrow> state \<Rightarrow> bool result \<times> state" where
  "send_wol self env s =
     (case external env (SendMagicPacket (nas_mac self)) (send_magic_packet env (nas_mac self)) s of
        (Return _, s1) \<Rightarrow> (Return True, logging INFO (''WOL packet sent to '' @ nas_mac self) s1)
      | (Exception e, s1) \<Rightarrow> (Return False, logging ERROR (''Failed to send WOL packet: '' @ e) s1)
      | (KeyboardInterrupt, s1) \<Rightarrow> (KeyboardInterrupt, s1))"

definition ping_host :: "NASBackup \<Rightarrow> env \<Rightarrow> int \<Rightarrow> state \<Rightarrow> bool result \<times> state" where
  "ping_host self env timeout s =
     (case external env (Ping (nas_ip self) timeout) (ping env (pings s))
             (s\<lparr>pings := Suc (pings s)\<rparr>) of
        (Return v, s1) \<Rightarrow> (Return (v \<noteq> PingNone), s1)
      | (Exception e, s1) \<Rightarrow> (Return False, s1)
      | (KeyboardInterrupt, s1) \<Rightarrow> (KeyboardInterrupt, s1))"

definition check_ssh_ready :: "NASBackup \<Rightarrow> env \<Rightarrow> int \<Rightarrow> state \<Rightarrow> bool result \<times> state" where
  "check_ssh_ready self env timeout s =
     (case external env
             (ProbeConnect (nas_ip self) (self_ssh_port self) (self_ssh_user self)
                (self_ssh_key self) timeout)
             (probe_connect env (probes s)) (s\<lparr>probes := Suc (probes s)\<rparr>) of
        (Return _, s1) \<Rightarrow> (Return True, emit ProbeClose s1)
      | (Exception e, s1) \<Rightarrow> (Return False, s1)
      | (KeyboardInterrupt, s1) \<Rightarrow> (KeyboardInterrupt, s1))"

text \<open>
  Phase 1 of \<open>wait_for_online\<close>, the \<open>while ... else\<close> loop. \<open>Return True\<close> is the
  \<open>break\<close>; \<open>Return False\<close> is the \<open>else\<close> branch, which returns \<open>False\<close> from
  \<open>wait_for_online\<close>. The loop ends only when the clock passes \<open>max_wait\<close>, so in the
  model it need not end: \<open>None\<close> is a loop that runs forever.
\<close>

partial_function (option) wait_for_ping ::
  "NASBackup \<Rightarrow> env \<Rightarrow> rat \<Rightarrow> state \<Rightarrow> (bool result \<times> state) option" where
  "wait_for_ping self env start_time s =
     (if clock s - start_time < of_int (max_wait_time (self_nas self)) then
        (case ping_host self env 1 s of
           (Return online, s1) \<Rightarrow>
             if online then Some (Return True, logging INFO ''NAS responded to ping'' s1)
             else (case sleep env (ping_interval (self_nas self)) s1 of
                     (Return _, s2) \<Rightarrow> wait_for_ping self env start_time s2
                   | (Exception e, s2) \<Rightarrow> Some (Exception e, s2)
                   | (KeyboardInterrupt, s2) \<Rightarrow> Some (KeyboardInterrupt, s2))
         | (Exception e, s1) \<Rightarrow> Some (Exception e, s1)
         | (KeyboardInterrupt, s1) \<Rightarrow> Some (KeyboardInterrupt, s1))
      else Some (Return False,
                 logging ERROR (''Timeout ('' @ str_int (max_wait_time (self_nas self))
                                @ '' seconds), NAS did not respond to ping'') s))"

declare wait_for_ping.simps [code]

text \<open>Phase 2 of \<open>wait_for_online\<close>, the loop on \<open>retry_count\<close>.\<close>

function wait_for_ssh :: "NASBackup \<Rightarrow> env \<Rightarrow> nat \<Rightarrow> state \<Rightarrow> bool result \<times> state" where
  "wait_for_ssh self env retry_count s =
     (if retry_count < 10 then
        (case check_ssh_ready self env 5 s of
           (Return ready, s1) \<Rightarrow>
             if ready then (Return True, logging INFO ''SSH service is ready'' s1)
             else (case sleep env 5 s1 of
                     (Return _, s2) \<Rightarrow> wait_for_ssh self env (retry_count + 1) s2
                   | (Exception e, s2) \<Rightarrow> (Exception e, s2)
                   | (KeyboardInterrupt, s2) \<Rightarrow> (KeyboardInterrupt, s2))
         | (Exception e, s1) \<Rightarrow> (Exception e, s1)
         | (KeyboardInterrupt, s1) \<Rightarrow> (KeyboardInterrupt, s1))
      else (Return False, logging ERROR ''SSH service not ready after retries'' s))"
  by pat_completeness auto
termination
  by (relation "measure (\<lambda>(self, env, retry_count, s). 10 - retry_count)") auto

definition wait_for_online :: "NASBackup \<Rightarrow> env \<Rightarrow> state \<Rightarrow> (bool result \<times> state) option" where
  "wait_for_online self env s =
     (let s0 = logging INFO (''Waiting for NAS ('' @ nas_ip self @ '') to come online...'') s;
          start_time = clock s0
      in case wait_for_ping self env start_time s0 of
           None \<Rightarrow> None
         | Some (Return online, s1) \<Rightarrow>
             if online then
               (case sleep env (ssh_ready_wait (self_nas self))
                       (logging INFO ''Waiting for SSH service to be ready...'' s1) of
                  (Return _, s2) \<Rightarrow> Some (wait_for_ssh self env 0 s2)
                | (Exception e, s2) \<Rightarrow> Some (Exception e, s2)
                | (KeyboardInterrupt, s2) \<Rightarrow> Some (KeyboardInterrupt, s2))
             else Some (Return False, s1)
         | Some (Exception e, s1) \<Rightarrow> Some (Exception e, s1)
         | Some (KeyboardInterrupt, s1) \<Rightarrow> Some (KeyboardInterrupt, s1))"

text \<open>\<open>self.ssh_key and self.ssh_key.exists()\<close>: the key to use, if there is one.\<close>

definition usable_key :: "NASBackup \<Rightarrow> env \<Rightarrow> string option reply" where
  "usable_key self env =
     (case self_ssh_key self of
        None \<Rightarrow> Ok None
      | Some k \<Rightarrow> (case path_exists env k of
                     Ok b \<Rightarrow> Ok (if b then Some k else None)
                   | Fails m \<Rightarrow> Fails m))"

definition connect_ssh :: "NASBackup \<Rightarrow> env \<Rightarrow> state \<Rightarrow> bool result \<times> state" where
  "connect_ssh self env s =
     (let s0 = s\<lparr>ssh_client := Some SSHClient\<rparr> in
      case usable_key self env of
        Fails m \<Rightarrow> (Return False, logging ERROR (''SSH connection failed: '' @ m) s0)
      | Ok key_filename \<Rightarrow>
          (case external env
                  (SessionConnect (nas_ip self) (self_ssh_port self) (self_ssh_user self)
                     key_filename 10)
                  (session_connect env) s0 of
             (Return _, s1) \<Rightarrow> (Return True, logging INFO ''SSH connection established'' s1)
           | (Exception e, s1) \<Rightarrow>
               (Return False, logging ERROR (''SSH connection failed: '' @ e) s1)
           | (KeyboardInterrupt, s1) \<Rightarrow> (KeyboardInterrupt, s1)))"

definition execute_ssh_command ::
  "NASBackup \<Rightarrow> env \<Rightarrow> string \<Rightarrow> state
     \<Rightarrow> (string option \<times> string option \<times> bool) result \<times> state" where
  "execute_ssh_command self env command s =
     (case ssh_client s of
        None \<Rightarrow> (Return (None, None, False), s)
      | Some c \<Rightarrow>
          (case external env (SessionExec command 30) (exec_command env command) s of
             (Return _, s1) \<Rightarrow>
               (case external env SessionRead (exec_read env command) s1 of
                  (Return (exit_status, output, error), s2) \<Rightarrow>
                    (Return (Some output, Some error, exit_status = 0), s2)
                | (Exception e, s2) \<Rightarrow>
                    (Return (None, Some e, False),
                     logging ERROR (''Failed to execute SSH command: '' @ e) s2)
                | (KeyboardInterrupt, s2) \<Rightarrow> (KeyboardInterrupt, s2))
           | (Exception e, s1) \<Rightarrow>
               (Return (None, Some e, False),
                logging ERROR (''Failed to execute SSH command: '' @ e) s1)
           | (KeyboardInterrupt, s1) \<Rightarrow> (KeyboardInterrupt, s1)))"

definition close_ssh :: "NASBackup \<Rightarrow> state \<Rightarrow> state" where
  "close_ssh self s =
     (case ssh_client s of
        None \<Rightarrow> s
      | Some c \<Rightarrow> logging INFO ''SSH connection closed'' (emit SessionClose s))"

text \<open>
  \<open>rsync_backup\<close>. The second argument of \<open>Popen\<close> is the value of \<open>RSYNC_RSH\<close> in the
  environment given to the child, \<open>None\<close> when the child inherits the environment of the
  process (\<open>env = None\<close>).
\<close>

definition rsync_backup :: "NASBackup \<Rightarrow> env \<Rightarrow> state \<Rightarrow> bool result \<times> state" where
  "rsync_backup self env s =
     (let source_dir = local_dir (self_backup self);
          target_dir = nas_dir (self_backup self);
          rsync_opts = rsync_options (self_backup self)
      in case path_exists env source_dir of
           Fails m \<Rightarrow> (Return False, logging ERROR (''Rsync execution exception: '' @ m) s)
         | Ok exists \<Rightarrow>
             if \<not> exists then
               (Return False,
                logging ERROR (''Source directory does not exist: '' @ source_dir) s)
             else
               (let target = self_ssh_user self @ ''@'' @ nas_ip self @ '':'' @ target_dir
                in case usable_key self env of
                     Fails m \<Rightarrow>
                       (Return False, logging ERROR (''Rsync execution exception: '' @ m) s)
                   | Ok key \<Rightarrow>
                       (let rsync_rsh =
                              (case key of
                                 Some k \<Rightarrow> Some (''/usr/bin/ssh -i '' @ k @ '' -p ''
                                                  @ str_int (self_ssh_port self))
                               | None \<Rightarrow> None);
                            cmd = [''/usr/bin/rsync''] @ str_split rsync_opts
                                  @ [source_dir @ ''/'', target @ ''/''];
                            s1 = logging INFO (''Command: '' @ join '' '' cmd)
                                   (logging INFO ''Starting Rsync backup...'' s)
                        in case external env (Popen cmd rsync_rsh) (popen env cmd rsync_rsh) s1 of
                             (Return (lines, returncode), s2) \<Rightarrow>
                               (let s3 = s2\<lparr>trace := trace s2 @ map Stdout lines\<rparr> in
                                if returncode = 0 then
                                  (Return True,
                                   logging INFO ''Rsync backup completed successfully'' s3)
                                else
                                  (Return False,
                                   logging ERROR (''Rsync failed (return code: ''
                                                  @ str_int returncode @ '')'') s3))
                           | (Exception e, s2) \<Rightarrow>
                               (Return False,
                                logging ERROR (''Rsync execution exception: '' @ e) s2)
                           | (KeyboardInterrupt, s2) \<Rightarrow> (KeyboardInterrupt, s2))))"

definition shutdown_nas :: "NASBackup \<Rightarrow> env \<Rightarrow> state \<Rightarrow> bool result \<times> state" where
  "shutdown_nas self env s =
     (let s0 = logging INFO ''Shutting down NAS...'' s in
      case ssh_client s0 of
        Some c \<Rightarrow>
          (case external env (SessionExec ''sudo shutdown -h now'' 5)
                  (exec_command env ''sudo shutdown -h now'') s0 of
             (Return _, s1) \<Rightarrow> (Return True, logging INFO ''Shutdown command sent'' s1)
           | (Exception e, s1) \<Rightarrow>
               (Return True,
                logging INFO ''Shutdown command sent (connection interruption is normal)'' s1)
           | (KeyboardInterrupt, s1) \<Rightarrow> (KeyboardInterrupt, s1))
      | None \<Rightarrow> (Return False, logging ERROR ''SSH client not connected, cannot shutdown'' s0))"

subsection \<open>Module-level functions\<close>

definition get_directory_size :: "env \<Rightarrow> string \<Rightarrow> state \<Rightarrow> string result \<times> state" where
  "get_directory_size env path s =
     (case external env (SubprocessRun [''du'', ''-sh'', path] 30)
             (subprocess_run env [''du'', ''-sh'', path]) s of
        (Return (returncode, stdout), s1) \<Rightarrow>
          (if returncode = 0 then
             (case str_split stdout of
                [] \<Rightarrow> (Return ''Unknown'', s1)
              | first # rest \<Rightarrow> (Return first, s1))
           else (Return ''Unknown'', s1))
      | (Exception e, s1) \<Rightarrow> (Return ''Unknown'', s1)
      | (KeyboardInterrupt, s1) \<Rightarrow> (KeyboardInterrupt, s1))"

definition nl :: string where
  "nl = [CHR 0x0A]"

text \<open>The two symbols of the titles, U+2705 and U+274C, as their UTF-8 bytes.\<close>

definition check_mark :: string where
  "check_mark = [CHR 0xE2, CHR 0x9C, CHR 0x85]"

definition cross_mark :: string where
  "cross_mark = [CHR 0xE2, CHR 0x9D, CHR 0x8C]"

text \<open>The embed that \<open>send_discord_notification\<close> builds (lines 109 to 135).\<close>

definition notification_payload ::
  "env \<Rightarrow> bool \<Rightarrow> rat \<Rightarrow> string option \<Rightarrow> string option \<Rightarrow> payload" where
  "notification_payload env success duration file_size error_msg =
     (let color = (if success then 0x00FF00 else 0xFF0000);
          title = (if success then check_mark @ '' Backup Successful''
                   else cross_mark @ '' Backup Failed'');
          fields1 = [(''Status'', if success then ''Success'' else ''Failed'', True),
                     (''Duration'', format_duration env duration @ ''s'', True)];
          fields2 = (if truthy file_size then fields1 @ [(''Size'', the file_size, True)]
                     else fields1);
          fields3 = (if truthy error_msg
                     then fields2 @ [(''Error'', ''```'' @ take_chars 1000 (the error_msg) @ ''```'',
                                      False)]
                     else fields2)
      in \<lparr>title = title, color = color, embed_fields = fields3,
          timestamp = now_iso env, footer = ''PVE Backup Sync to NAS''\<rparr>)"

text \<open>
  \<open>send_discord_notification\<close> runs in the \<open>finally\<close> block of \<open>main\<close>, after the
  duration is taken; the interrupt of the model is one that arrives in the \<open>try\<close> block,
  so the post is not an interruptible call here.
\<close>

definition send_discord_notification ::
  "env \<Rightarrow> string \<Rightarrow> bool \<Rightarrow> rat \<Rightarrow> string option \<Rightarrow> string option \<Rightarrow> state \<Rightarrow> state" where
  "send_discord_notification env webhook_url success duration file_size error_msg s =
     (if webhook_url = [] then s
      else
        (let p = notification_payload env success duration file_size error_msg;
             s1 = emit (Post webhook_url p 10) s
         in case requests_post env webhook_url p of
              Ok _ \<Rightarrow> logging INFO ''Discord notification sent'' s1
            | Fails e \<Rightarrow> logging WARNING (''Failed to send Discord notification: '' @ e) s1))"

datatype load = Loaded Config | FileNotFoundError string | LoadError string

definition load_config :: "env \<Rightarrow> string \<Rightarrow> load" where
  "load_config env config_path =
     (case path_exists env config_path of
        Fails m \<Rightarrow> LoadError m
      | Ok exists \<Rightarrow>
          if \<not> exists then
            FileNotFoundError (''Configuration file not found: '' @ config_path @ nl
                               @ ''Please create config.toml from config.example.toml'')
          else (case toml_load env config_path of
                  Ok c \<Rightarrow> Loaded c
                | Fails m \<Rightarrow> LoadError m))"

subsection \<open>main\<close>

text \<open>The local variables of \<open>main\<close> that the handlers and the \<open>finally\<close> block read.\<close>

record locals =
  success :: bool
  error_msg :: "string option"
  file_size :: "string option"

record run =
  exit_code :: int
  outcome :: locals
  duration :: rat
  final :: state

text \<open>\<open>if not backup.m(): raise Exception(msg)\<close>, with the call and its result recorded.\<close>

fun checked :: "string \<Rightarrow> string \<Rightarrow> bool result \<times> state \<Rightarrow> unit result \<times> state" where
  "checked m msg (Return v, s) =
     (if v then (Return (), emit (Result m True) s)
      else (Exception msg, emit (Result m False) s))"
| "checked m msg (Exception e, s) = (Exception e, s)"
| "checked m msg (KeyboardInterrupt, s) = (KeyboardInterrupt, s)"

definition banner :: string where
  "banner = replicate 60 CHR ''=''"

text \<open>The \<open>try\<close> block from \<open>connect_ssh\<close> on (lines 452 to 473).\<close>

definition main_sync ::
  "Config \<Rightarrow> NASBackup \<Rightarrow> env \<Rightarrow> locals \<Rightarrow> state \<Rightarrow> unit result \<times> locals \<times> state" where
  "main_sync config bk env l s =
     (case checked ''connect_ssh'' ''Failed to establish SSH connection''
             (connect_ssh bk env (emit (Invoke ''connect_ssh'') s)) of
        (Exception e, s1) \<Rightarrow> (Exception e, l, s1)
      | (KeyboardInterrupt, s1) \<Rightarrow> (KeyboardInterrupt, l, s1)
      | (Return _, s1) \<Rightarrow>
          (case checked ''rsync_backup'' ''Backup failed''
                  (rsync_backup bk env
                     (emit (Invoke ''rsync_backup'')
                        (logging INFO (nl @ ''[Step 3] Execute Rsync backup'') s1))) of
             (Exception e, s2) \<Rightarrow> (Exception e, l, s2)
           | (KeyboardInterrupt, s2) \<Rightarrow> (KeyboardInterrupt, l, s2)
           | (Return _, s2) \<Rightarrow>
               (case get_directory_size env (local_dir (backup config))
                       (emit (Invoke ''get_directory_size'') s2) of
                  (Exception e, s3) \<Rightarrow> (Exception e, l, s3)
                | (KeyboardInterrupt, s3) \<Rightarrow> (KeyboardInterrupt, l, s3)
                | (Return sz, s3) \<Rightarrow>
                    (let l1 = l\<lparr>file_size := Some sz\<rparr> in
                     case shutdown_nas bk env
                            (emit (Invoke ''shutdown_nas'')
                               (logging INFO (nl @ ''[Step 4] Shutdown NAS'') s3)) of
                       (Exception e, s4) \<Rightarrow> (Exception e, l1, s4)
                     | (KeyboardInterrupt, s4) \<Rightarrow> (KeyboardInterrupt, l1, s4)
                     | (Return ok, s4) \<Rightarrow>
                         (let s5 = emit (Result ''shutdown_nas'' ok) s4;
                              s6 = (if \<not> ok
                                    then logging WARNING
                                           ''Failed to shutdown NAS, please check manually'' s5
                                    else s5);
                              s7 = logging INFO banner
                                     (logging INFO ''Backup process completed successfully!''
                                        (logging INFO (nl @ banner) s6))
                          in (Return (), l1\<lparr>success := True\<rparr>, s7))))))"

text \<open>The whole \<open>try\<close> block (lines 436 to 473).\<close>

definition main_try ::
  "Config \<Rightarrow> NASBackup \<Rightarrow> env \<Rightarrow> locals \<Rightarrow> state \<Rightarrow> (unit result \<times> locals \<times> state) option" where
  "main_try config bk env l s =
     (let s0 = logging INFO banner
                 (logging INFO (''Execution time: '' @ now_text env)
                    (logging INFO ''PVE Backup Sync to NAS Started''
                       (logging INFO banner s)))
      in case checked ''send_wol'' ''Failed to send WOL packet''
                (send_wol bk env
                   (emit (Invoke ''send_wol'') (logging INFO (nl @ ''[Step 1] Wake NAS'') s0))) of
           (Exception e, s1) \<Rightarrow> Some (Exception e, l, s1)
         | (KeyboardInterrupt, s1) \<Rightarrow> Some (KeyboardInterrupt, l, s1)
         | (Return _, s1) \<Rightarrow>
             (case wait_for_online bk env
                     (emit (Invoke ''wait_for_online'')
                        (logging INFO (nl @ ''[Step 2] Wait for NAS to be online'') s1)) of
                None \<Rightarrow> None
              | Some r \<Rightarrow>
                  (case checked ''wait_for_online'' ''NAS failed to come online'' r of
                     (Exception e, s2) \<Rightarrow> Some (Exception e, l, s2)
                   | (KeyboardInterrupt, s2) \<Rightarrow> Some (KeyboardInterrupt, l, s2)
                   | (Return _, s2) \<Rightarrow> Some (main_sync config bk env l s2))))"

text \<open>The two handlers (lines 475 to 484).\<close>

fun main_except :: "env \<Rightarrow> unit result \<Rightarrow> locals \<Rightarrow> state \<Rightarrow> locals \<times> state" where
  "main_except env (Return u) l s = (l, s)"
| "main_except env KeyboardInterrupt l s =
     (l\<lparr>error_msg := Some ''User interrupted''\<rparr>,
      logging INFO (nl @ ''User interrupted execution'') s)"
| "main_except env (Exception e) l s =
     (l\<lparr>error_msg := Some e\<rparr>,
      logging ERROR (traceback_text env)
        (logging ERROR (nl @ ''Error occurred during execution: '' @ e) s))"

text \<open>The \<open>finally\<close> block (lines 486 to 509).\<close>

definition main_finally :: "Config \<Rightarrow> NASBackup \<Rightarrow> env \<Rightarrow> rat \<Rightarrow> locals \<Rightarrow> state \<Rightarrow> run" where
  "main_finally config bk env start_time l s =
     (let s1 = close_ssh bk (emit (Invoke ''close_ssh'') s);
          d = clock s1 - start_time;
          n = notification config;
          s2 = (if enabled n then
                  (let should_notify = (success l \<and> on_success n) \<or> (\<not> success l \<and> on_failure n)
                   in if should_notify \<and> truthy (discord_webhook n)
                      then send_discord_notification env (the (discord_webhook n)) (success l) d
                             (file_size l) (error_msg l) s1
                      else s1)
                else s1)
      in \<lparr>exit_code = (if success l then 0 else 1), outcome = l, duration = d, final = s2\<rparr>)"

text \<open>\<open>main\<close> from the creation of the backup manager on (lines 427 to 509).\<close>

definition main_run :: "Config \<Rightarrow> env \<Rightarrow> run option" where
  "main_run config env =
     (case NASBackup_init env (nas config) (backup config) (log_cfg config) initial of
        (bk, s0) \<Rightarrow>
          (let start_time = clock s0;
               l0 = \<lparr>success = False, error_msg = None, file_size = None\<rparr>
           in case main_try config bk env l0 s0 of
                None \<Rightarrow> None
              | Some (r, l1, s1) \<Rightarrow>
                  (case main_except env r l1 s1 of
                     (l2, s2) \<Rightarrow> Some (main_finally config bk env start_time l2 s2))))"

text \<open>\<open>main\<close>: the exit code and the final state. \<open>argv\<close> is \<open>sys.argv\<close>.\<close>

definition main :: "string list \<Rightarrow> env \<Rightarrow> (int \<times> state) option" where
  "main argv env =
     (if length argv < 2 then
        Some (1, emit (Stdout (''Usage: pve-backup-sync-to-nas <config.toml>'' @ nl)) initial)
      else
        (case load_config env (argv ! 1) of
           FileNotFoundError e \<Rightarrow> Some (1, emit (Stdout (''Error: '' @ e @ nl)) initial)
         | LoadError e \<Rightarrow>
             Some (1, emit (Stderr (traceback_text env))
                        (emit (Stdout (''Failed to load configuration: '' @ e @ nl)) initial))
         | Loaded config \<Rightarrow>
             (case main_run config env of
                None \<Rightarrow> None
              | Some r \<Rightarrow> Some (exit_code r, final r))))"

subsection \<open>Observing a trace\<close>

text \<open>
  The events that the properties below count or order: the calls and results recorded by
  \<open>main\<close>, the closing of the session, the child process of rsync and the webhook post.
  No method of \<open>NASBackup\<close> but \<open>rsync_backup\<close> writes one of them.
\<close>

fun is_mark :: "event \<Rightarrow> bool" where
  "is_mark (Invoke m) = True"
| "is_mark (Result m v) = True"
| "is_mark SessionClose = True"
| "is_mark (Post u p t) = True"
| "is_mark (Popen c e) = True"
| "is_mark e = False"

definition marks :: "state \<Rightarrow> event list" where
  "marks s = filter is_mark (trace s)"

fun is_post :: "event \<Rightarrow> bool" where
  "is_post (Post u p t) = True"
| "is_post e = False"

fun is_popen :: "event \<Rightarrow> bool" where
  "is_popen (Popen c e) = True"
| "is_popen e = False"


subsection \<open>A sample configuration and sample environments\<close>

definition example_config :: Config where
  "example_config =
     \<lparr>nas = \<lparr>mac_address = ''00:11:22:33:44:55'', ip = ''192.168.1.10'',
              ssh_user = ''admin'', ssh_port = 22, ssh_key = Some ''/root/.ssh/id_rsa'',
              max_wait_time = 300, ping_interval = 5, ssh_ready_wait = 30\<rparr>,
      backup = \<lparr>local_dir = ''/var/lib/vz/dump'', nas_dir = ''/volume1/backup'',
                 rsync_options = ''-avhP --delete --checksum''\<rparr>,
      log_cfg = \<lparr>log_file = ''/var/log/pve_backup_sync_to_nas.log'', log_level = ''INFO''\<rparr>,
      notification = \<lparr>enabled = True, discord_webhook = Some ''https://discord.example/hook'',
                       on_success = True, on_failure = True\<rparr>\<rparr>"

text \<open>Every collaborator answers at once and succeeds.\<close>

definition example_env :: env where
  "example_env =
     \<lparr>interrupt_at = None, call_time = (\<lambda>k. 0), send_magic_packet = (\<lambda>m. Ok ()),
      ping = (\<lambda>k. Ok PingValue), probe_connect = (\<lambda>k. Ok ()), session_connect = Ok (),
      exec_command = (\<lambda>c. Ok ()), exec_read = (\<lambda>c. Ok (0, ''up'', [])),
      path_exists = (\<lambda>p. Ok True), expanduser = (\<lambda>p. p),
      popen = (\<lambda>cmd e. Ok ([''sending incremental file list''], 0)),
      subprocess_run = (\<lambda>cmd. Ok (0, ''12G /var/lib/vz/dump'')),
      requests_post = (\<lambda>u p. Ok ()), toml_load = (\<lambda>p. Ok example_config),
      now_text = ''2026-01-01 00:00:00'', now_iso = ''2026-01-01T00:00:00'',
      format_duration = (\<lambda>d. ''0.0''), traceback_text = ''Traceback''\<rparr>"

definition example_self :: NASBackup where
  "example_self =
     fst (NASBackup_init example_env (nas example_config) (backup example_config)
            (log_cfg example_config) initial)"

text \<open>Variants of the configuration: a short wait, a negative interval, a negative
  wait, and notifications enabled with no webhook configured.\<close>

definition short_config :: Config where
  "short_config = example_config\<lparr>nas := (nas example_config)\<lparr>max_wait_time := 7\<rparr>\<rparr>"



definition quiet_config :: Config where
  "quiet_config =
     example_config\<lparr>notification := \<lparr>enabled = True, discord_webhook = None,
                                       on_success = True, on_failure = True\<rparr>\<rparr>"

text \<open>The backup manager that \<open>main\<close> creates for a configuration.\<close>

definition backup_of :: "Config \<Rightarrow> env \<Rightarrow> NASBackup" where
  "backup_of config env =
     fst (NASBackup_init env (nas config) (backup config) (log_cfg config) initial)"

text \<open>
  Variants of the environment: the NAS never answers a ping and each call takes one second;
  the SSH service never comes up, or comes up at the fourth probe; the source directory or
  the key file is missing; the connection drops at the shutdown command; \<open>du\<close> fails.
\<close>

definition env_unreachable :: env where
  "env_unreachable = example_env\<lparr>ping := (\<lambda>k. Ok PingNone), call_time := (\<lambda>k. 1)\<rparr>"



definition env_missing_source :: env where
  "env_missing_source = example_env\<lparr>path_exists := (\<lambda>p. Ok (p \<noteq> ''/var/lib/vz/dump''))\<rparr>"

definition env_no_keyfile :: env where
  "env_no_keyfile = example_env\<lparr>path_exists := (\<lambda>p. Ok (p \<noteq> ''/root/.ssh/id_rsa''))\<rparr>"

definition env_dropped :: env where
  "env_dropped = example_env\<lparr>exec_command := (\<lambda>c. Fails ''Socket is closed'')\<rparr>"

definition env_du_fails :: env where
  "env_du_fails = example_env\<lparr>subprocess_run := (\<lambda>c. Fails ''timed out'')\<rparr>"

text \<open>The user interrupts the run during its sixth external call, the rsync process.\<close>

definition env_interrupted :: env where
  "env_interrupted = example_env\<lparr>interrupt_at := Some 5\<rparr>"

subsection \<open>The paths of a run\<close>

text \<open>
  The marks that the \<open>try\<close> block of \<open>main\<close> can leave, with the way it ends
  (\<open>r\<close>) and the locals it leaves (\<open>l'\<close>): first from \<open>connect_ssh\<close> on, then
  from the start. They are used in the proofs only.
\<close>

definition sync_shape ::
  "env \<Rightarrow> NASBackup \<Rightarrow> event list \<Rightarrow> unit result \<Rightarrow> locals \<Rightarrow> locals \<Rightarrow> bool" where
  "sync_shape env bk ms r l l' =
     (\<exists>p. (p = [] \<or> (\<exists>c e. p = [Popen c e])
                    \<and> path_exists env (local_dir (self_backup bk)) = Ok True)
        \<and> (ms = [Invoke ''connect_ssh'']
             \<and> r = KeyboardInterrupt \<and> l' = l \<and> interrupt_at env \<noteq> None
           \<or> ms = [Invoke ''connect_ssh'', Result ''connect_ssh'' False]
             \<and> r = Exception ''Failed to establish SSH connection'' \<and> l' = l
           \<or> ms = [Invoke ''connect_ssh'', Result ''connect_ssh'' True, Invoke ''rsync_backup''] @ p
             \<and> r = KeyboardInterrupt \<and> l' = l \<and> interrupt_at env \<noteq> None
             \<and> path_exists env (local_dir (self_backup bk)) \<noteq> Ok False
           \<or> ms = [Invoke ''connect_ssh'', Result ''connect_ssh'' True, Invoke ''rsync_backup''] @ p
                  @ [Result ''rsync_backup'' False]
             \<and> r = Exception ''Backup failed'' \<and> l' = l
           \<or> ms = [Invoke ''connect_ssh'', Result ''connect_ssh'' True, Invoke ''rsync_backup''] @ p
                  @ [Result ''rsync_backup'' True, Invoke ''get_directory_size'']
             \<and> r = KeyboardInterrupt \<and> l' = l \<and> interrupt_at env \<noteq> None
             \<and> path_exists env (local_dir (self_backup bk)) = Ok True
           \<or> ms = [Invoke ''connect_ssh'', Result ''connect_ssh'' True, Invoke ''rsync_backup''] @ p
                  @ [Result ''rsync_backup'' True, Invoke ''get_directory_size'',
                     Invoke ''shutdown_nas'']
             \<and> r = KeyboardInterrupt \<and> (\<exists>sz. l' = l\<lparr>file_size := Some sz\<rparr>)
             \<and> interrupt_at env \<noteq> None
             \<and> path_exists env (local_dir (self_backup bk)) = Ok True
           \<or> (\<exists>v. ms = [Invoke ''connect_ssh'', Result ''connect_ssh'' True,
                          Invoke ''rsync_backup''] @ p
                  @ [Result ''rsync_backup'' True, Invoke ''get_directory_size'',
                     Invoke ''shutdown_nas'', Result ''shutdown_nas'' v])
             \<and> r = Return () \<and> (\<exists>sz. l' = l\<lparr>file_size := Some sz, success := True\<rparr>)
             \<and> path_exists env (local_dir (self_backup bk)) = Ok True))"


definition try_shape ::
  "env \<Rightarrow> NASBackup \<Rightarrow> event list \<Rightarrow> unit result \<Rightarrow> locals \<Rightarrow> locals \<Rightarrow> client option \<Rightarrow> bool"
  where
  "try_shape env bk ms r l l' c =
     (ms = [Invoke ''send_wol'']
        \<and> r = KeyboardInterrupt \<and> l' = l \<and> c = None \<and> interrupt_at env \<noteq> None
      \<or> ms = [Invoke ''send_wol'', Result ''send_wol'' False]
        \<and> r = Exception ''Failed to send WOL packet'' \<and> l' = l \<and> c = None
      \<or> ms = [Invoke ''send_wol'', Result ''send_wol'' True, Invoke ''wait_for_online'']
        \<and> (r = KeyboardInterrupt \<and> interrupt_at env \<noteq> None \<or> (\<exists>e. r = Exception e))
        \<and> l' = l \<and> c = None
      \<or> ms = [Invoke ''send_wol'', Result ''send_wol'' True, Invoke ''wait_for_online'',
               Result ''wait_for_online'' False]
        \<and> r = Exception ''NAS failed to come online'' \<and> l' = l \<and> c = None
      \<or> (\<exists>ms'. ms = [Invoke ''send_wol'', Result ''send_wol'' True, Invoke ''wait_for_online'',
                       Result ''wait_for_online'' True] @ ms'
                 \<and> sync_shape env bk ms' r l l') \<and> c = Some SSHClient)"

section \<open>Properties\<close>

subsection \<open>What each method leaves in the trace\<close>

lemma marks_logging [simp]: "marks (logging l m s) = marks s"
  by (simp add: marks_def logging_def emit_def)

lemma marks_emit [simp]: "marks (emit e s) = (if is_mark e then marks s @ [e] else marks s)"
  by (simp add: marks_def emit_def)

lemma client_logging [simp]: "ssh_client (logging l m s) = ssh_client s"
  by (simp add: logging_def emit_def)

lemma client_emit [simp]: "ssh_client (emit e s) = ssh_client s"
  by (simp add: emit_def)

lemma marks_pings [simp]: "marks (s\<lparr>pings := n\<rparr>) = marks s"
  by (simp add: marks_def)

lemma marks_probes [simp]: "marks (s\<lparr>probes := n\<rparr>) = marks s"
  by (simp add: marks_def)

lemma marks_client [simp]: "marks (s\<lparr>ssh_client := c\<rparr>) = marks s"
  by (simp add: marks_def)

lemma external_frame:
  "external env e r s = (x, s') \<Longrightarrow>
     marks s' = marks (emit e s) \<and> ssh_client s' = ssh_client s
     \<and> (x = KeyboardInterrupt \<longrightarrow> interrupt_at env \<noteq> None)"
  by (auto simp: external_def Let_def marks_def emit_def split: if_splits reply.splits)

lemma sleep_frame:
  "sleep env n s = (x, s') \<Longrightarrow>
     marks s' = marks s \<and> ssh_client s' = ssh_client s
     \<and> (x = KeyboardInterrupt \<longrightarrow> interrupt_at env \<noteq> None)"
  by (auto simp: sleep_def Let_def marks_def emit_def split: if_splits)

lemma send_wol_frame:
  "send_wol self env s = (x, s') \<Longrightarrow> marks s' = marks s \<and> ssh_client s' = ssh_client s"
  by (auto simp: send_wol_def split: prod.splits result.splits dest!: external_frame)

lemma send_wol_result:
  "send_wol self env s = (x, s') \<Longrightarrow>
     (\<forall>e. x \<noteq> Exception e) \<and> (interrupt_at env = None \<longrightarrow> x \<noteq> KeyboardInterrupt)"
  by (auto simp: send_wol_def split: prod.splits result.splits dest!: external_frame)

lemma ping_host_frame:
  "ping_host self env t s = (x, s') \<Longrightarrow> marks s' = marks s \<and> ssh_client s' = ssh_client s"
  by (auto simp: ping_host_def split: prod.splits result.splits dest!: external_frame)

lemma ping_host_result:
  "ping_host self env t s = (x, s') \<Longrightarrow>
     (\<forall>e. x \<noteq> Exception e) \<and> (interrupt_at env = None \<longrightarrow> x \<noteq> KeyboardInterrupt)"
  by (auto simp: ping_host_def split: prod.splits result.splits dest!: external_frame)

lemma check_ssh_ready_frame:
  "check_ssh_ready self env t s = (x, s') \<Longrightarrow> marks s' = marks s \<and> ssh_client s' = ssh_client s"
  by (auto simp: check_ssh_ready_def split: prod.splits result.splits dest!: external_frame)

lemma check_ssh_ready_result:
  "check_ssh_ready self env t s = (x, s') \<Longrightarrow>
     (\<forall>e. x \<noteq> Exception e) \<and> (interrupt_at env = None \<longrightarrow> x \<noteq> KeyboardInterrupt)"
  by (auto simp: check_ssh_ready_def split: prod.splits result.splits dest!: external_frame)

lemma wait_for_ping_frame:
  assumes "wait_for_ping self env start s = Some y"
  shows "marks (snd y) = marks s \<and> ssh_client (snd y) = ssh_client s
     \<and> (interrupt_at env = None \<longrightarrow> fst y \<noteq> KeyboardInterrupt)"
  using assms
proof (induct rule: wait_for_ping.raw_induct [rotated 1, consumes 1])
  case (1 wfp self env start s y)
  show ?case
  proof (cases "clock s - start < of_int (max_wait_time (self_nas self))")
    case False
    with 1(2) show ?thesis by auto
  next
    case True
    obtain x s1 where p: "ping_host self env 1 s = (x, s1)" by (cases "ping_host self env 1 s")
    note f1 = ping_host_frame [OF p] ping_host_result [OF p]
    show ?thesis
    proof (cases x)
      case (Return online)
      show ?thesis
      proof (cases online)
        case True
        with 1(2) \<open>clock s - start < _\<close> p Return f1 show ?thesis by auto
      next
        case False
        obtain z s2 where sl: "sleep env (ping_interval (self_nas self)) s1 = (z, s2)"
          by (cases "sleep env (ping_interval (self_nas self)) s1")
        note f2 = sleep_frame [OF sl]
        show ?thesis
        proof (cases z)
          case (Return u)
          with 1(2) \<open>clock s - start < _\<close> p \<open>x = Return online\<close> False sl
          have "wfp self env start s2 = Some y" by simp
          from 1(1) [OF this] f1 f2 show ?thesis by simp
        next
          case (Exception e)
          with 1(2) \<open>clock s - start < _\<close> p \<open>x = Return online\<close> False sl f1 f2
          show ?thesis by auto
        next
          case KeyboardInterrupt
          with 1(2) \<open>clock s - start < _\<close> p \<open>x = Return online\<close> False sl f1 f2
          show ?thesis by auto
        qed
      qed
    next
      case (Exception e)
      with f1 show ?thesis by simp
    next
      case KeyboardInterrupt
      with 1(2) True p f1 show ?thesis by auto
    qed
  qed
qed

lemma wait_for_ssh_frame:
  "wait_for_ssh self env n s = (x, s') \<Longrightarrow>
     marks s' = marks s \<and> ssh_client s' = ssh_client s
     \<and> (interrupt_at env = None \<longrightarrow> x \<noteq> KeyboardInterrupt)"
proof (induction self env n s arbitrary: x s' rule: wait_for_ssh.induct)
  case (1 self env n s)
  show ?case
  proof (cases "n < 10")
    case False
    with 1(2) show ?thesis by (subst (asm) wait_for_ssh.simps) auto
  next
    case True
    obtain r s1 where p: "check_ssh_ready self env 5 s = (r, s1)"
      by (cases "check_ssh_ready self env 5 s")
    note f1 = check_ssh_ready_frame [OF p] check_ssh_ready_result [OF p]
    obtain z s2 where sl: "sleep env 5 s1 = (z, s2)" by (cases "sleep env 5 s1")
    note f2 = sleep_frame [OF sl]
    from 1(2) have eq: "(case check_ssh_ready self env 5 s of
           (Return ready, s1) \<Rightarrow>
             if ready then (Return True, logging INFO ''SSH service is ready'' s1)
             else (case sleep env 5 s1 of
                     (Return _, s2) \<Rightarrow> wait_for_ssh self env (n + 1) s2
                   | (Exception e, s2) \<Rightarrow> (Exception e, s2)
                   | (KeyboardInterrupt, s2) \<Rightarrow> (KeyboardInterrupt, s2))
         | (Exception e, s1) \<Rightarrow> (Exception e, s1)
         | (KeyboardInterrupt, s1) \<Rightarrow> (KeyboardInterrupt, s1)) = (x, s')"
      using True by (subst (asm) wait_for_ssh.simps) simp
    show ?thesis
    proof (cases r)
      case (Return ready)
      show ?thesis
      proof (cases ready)
        case True
        with eq p Return f1 show ?thesis by auto
      next
        case False
        show ?thesis
        proof (cases z)
          case (Return u)
          with eq p \<open>r = Return ready\<close> False sl have "wait_for_ssh self env (n + 1) s2 = (x, s')"
            by simp
          from 1(1) [OF \<open>n < 10\<close> p [symmetric] \<open>r = Return ready\<close> False sl [symmetric] Return this]
            f1 f2 show ?thesis by simp
        next
          case (Exception e)
          with eq p \<open>r = Return ready\<close> False sl f1 f2 show ?thesis by auto
        next
          case KeyboardInterrupt
          with eq p \<open>r = Return ready\<close> False sl f1 f2 show ?thesis by auto
        qed
      qed
    next
      case (Exception e)
      with f1 show ?thesis by simp
    next
      case KeyboardInterrupt
      with eq p f1 show ?thesis by auto
    qed
  qed
qed


lemma connect_ssh_frame:
  "connect_ssh self env s = (x, s') \<Longrightarrow>
     marks s' = marks s \<and> ssh_client s' = Some SSHClient \<and> (\<forall>e. x \<noteq> Exception e)
     \<and> (interrupt_at env = None \<longrightarrow> x \<noteq> KeyboardInterrupt)"
  by (auto simp: connect_ssh_def Let_def split: prod.splits result.splits reply.splits
           dest!: external_frame)

lemma get_directory_size_frame:
  "get_directory_size env path s = (x, s') \<Longrightarrow>
     marks s' = marks s \<and> ssh_client s' = ssh_client s \<and> (\<forall>e. x \<noteq> Exception e)
     \<and> (interrupt_at env = None \<longrightarrow> x \<noteq> KeyboardInterrupt)"
  by (auto simp: get_directory_size_def split: prod.splits result.splits list.splits if_splits
           dest!: external_frame)

lemma shutdown_nas_frame:
  "shutdown_nas self env s = (x, s') \<Longrightarrow>
     marks s' = marks s \<and> ssh_client s' = ssh_client s \<and> (\<forall>e. x \<noteq> Exception e)
     \<and> (interrupt_at env = None \<longrightarrow> x \<noteq> KeyboardInterrupt)"
  by (auto simp: shutdown_nas_def Let_def split: prod.splits result.splits option.splits
           dest!: external_frame)

lemma rsync_backup_frame:
  "rsync_backup self env s = (x, s') \<Longrightarrow>
     ssh_client s' = ssh_client s \<and> (\<forall>e. x \<noteq> Exception e)
     \<and> (interrupt_at env = None \<longrightarrow> x \<noteq> KeyboardInterrupt)
     \<and> (marks s' = marks s
          \<or> (\<exists>c e. marks s' = marks s @ [Popen c e])
              \<and> path_exists env (local_dir (self_backup self)) = Ok True)
     \<and> (x = Return True \<longrightarrow> path_exists env (local_dir (self_backup self)) = Ok True)
     \<and> (x = KeyboardInterrupt \<longrightarrow> path_exists env (local_dir (self_backup self)) \<noteq> Ok False)"
  by (auto simp: rsync_backup_def Let_def marks_def emit_def logging_def
           split: prod.splits result.splits reply.splits if_splits
           dest!: external_frame)

lemma wait_for_online_frame:
  assumes "wait_for_online self env s = Some (x, s')"
  shows "marks s' = marks s \<and> ssh_client s' = ssh_client s
         \<and> (interrupt_at env = None \<longrightarrow> x \<noteq> KeyboardInterrupt)"
proof -
  let ?s0 = "logging INFO (''Waiting for NAS ('' @ nas_ip self @ '') to come online...'') s"
  from assms obtain y where y: "wait_for_ping self env (clock ?s0) ?s0 = Some y"
    by (auto simp: wait_for_online_def Let_def split: option.splits)
  obtain x1 s1 where y1: "y = (x1, s1)" by (cases y)
  from wait_for_ping_frame [OF y] y1
  have f1: "marks s1 = marks s" "ssh_client s1 = ssh_client s"
    "interrupt_at env = None \<longrightarrow> x1 \<noteq> KeyboardInterrupt" by auto
  let ?s2 = "logging INFO ''Waiting for SSH service to be ready...'' s1"
  obtain z s3 where sl: "sleep env (ssh_ready_wait (self_nas self)) ?s2 = (z, s3)"
    by (cases "sleep env (ssh_ready_wait (self_nas self)) ?s2")
  from sleep_frame [OF sl] have f3: "marks s3 = marks s" "ssh_client s3 = ssh_client s"
    using f1 by auto
  obtain w s4 where ws: "wait_for_ssh self env 0 s3 = (w, s4)"
    by (cases "wait_for_ssh self env 0 s3")
  note f4 = wait_for_ssh_frame [OF ws]
  from assms y y1 sl ws f1 f3 f4 sleep_frame [OF sl]
  show ?thesis
    by (auto simp: wait_for_online_def Let_def split: result.splits if_splits)
qed


lemma main_sync_shape:
  assumes ms: "main_sync config bk env l s = (r, l', s')"
  shows "ssh_client s' = Some SSHClient
         \<and> (\<exists>ms. marks s' = marks s @ ms \<and> sync_shape env bk ms r l l')"
proof -
  let ?s0 = "emit (Invoke ''connect_ssh'') s"
  obtain x1 s1 where c1: "connect_ssh bk env ?s0 = (x1, s1)"
    by (cases "connect_ssh bk env ?s0")
  from connect_ssh_frame [OF c1]
  have f1: "marks s1 = marks s @ [Invoke ''connect_ssh'']" "ssh_client s1 = Some SSHClient"
    "\<And>e. x1 \<noteq> Exception e" "x1 = KeyboardInterrupt \<longrightarrow> interrupt_at env \<noteq> None"
    by auto
  let ?s2 = "emit (Invoke ''rsync_backup'')
               (logging INFO (nl @ ''[Step 3] Execute Rsync backup'')
                  (emit (Result ''connect_ssh'' True) s1))"
  obtain x2 s2 where c2: "rsync_backup bk env ?s2 = (x2, s2)"
    by (cases "rsync_backup bk env ?s2")
  from rsync_backup_frame [OF c2] f1 obtain p where
    f2: "marks s2 = marks s @ [Invoke ''connect_ssh'', Result ''connect_ssh'' True,
                               Invoke ''rsync_backup''] @ p"
      "p = [] \<or> (\<exists>c e. p = [Popen c e])
               \<and> path_exists env (local_dir (self_backup bk)) = Ok True"
      "ssh_client s2 = Some SSHClient" "\<And>e. x2 \<noteq> Exception e"
      "x2 = KeyboardInterrupt \<longrightarrow> interrupt_at env \<noteq> None"
      "x2 = Return True \<longrightarrow> path_exists env (local_dir (self_backup bk)) = Ok True"
      "x2 = KeyboardInterrupt \<longrightarrow> path_exists env (local_dir (self_backup bk)) \<noteq> Ok False"
    by auto
  let ?s3 = "emit (Invoke ''get_directory_size'') (emit (Result ''rsync_backup'' True) s2)"
  obtain x3 s3 where c3: "get_directory_size env (local_dir (backup config)) ?s3 = (x3, s3)"
    by (cases "get_directory_size env (local_dir (backup config)) ?s3")
  from get_directory_size_frame [OF c3] f2
  have f3: "marks s3 = marks s @ [Invoke ''connect_ssh'', Result ''connect_ssh'' True,
                                  Invoke ''rsync_backup''] @ p
                       @ [Result ''rsync_backup'' True, Invoke ''get_directory_size'']"
      "ssh_client s3 = Some SSHClient" "\<And>e. x3 \<noteq> Exception e"
      "x3 = KeyboardInterrupt \<longrightarrow> interrupt_at env \<noteq> None"
    by auto
  let ?s4 = "emit (Invoke ''shutdown_nas'') (logging INFO (nl @ ''[Step 4] Shutdown NAS'') s3)"
  obtain x4 s4 where c4: "shutdown_nas bk env ?s4 = (x4, s4)"
    by (cases "shutdown_nas bk env ?s4")
  from shutdown_nas_frame [OF c4] f3
  have f4: "marks s4 = marks s @ [Invoke ''connect_ssh'', Result ''connect_ssh'' True,
                                  Invoke ''rsync_backup''] @ p
                       @ [Result ''rsync_backup'' True, Invoke ''get_directory_size'',
                          Invoke ''shutdown_nas'']"
      "ssh_client s4 = Some SSHClient" "\<And>e. x4 \<noteq> Exception e"
      "x4 = KeyboardInterrupt \<longrightarrow> interrupt_at env \<noteq> None"
    by auto
  consider (int1) "x1 = KeyboardInterrupt" | (no1) "x1 = Return False"
    | (int2) "x1 = Return True" "x2 = KeyboardInterrupt"
    | (no2) "x1 = Return True" "x2 = Return False"
    | (int3) "x1 = Return True" "x2 = Return True" "x3 = KeyboardInterrupt"
    | (int4) sz where "x1 = Return True" "x2 = Return True" "x3 = Return sz"
        "x4 = KeyboardInterrupt"
    | (completed) sz v where "x1 = Return True" "x2 = Return True" "x3 = Return sz" "x4 = Return v"
    using f1(3) f2(4) f3(3) f4(3) by (cases x1; cases x2; cases x3; cases x4) auto
  then show ?thesis
  proof cases
    case int1
    with ms c1 have *: "r = KeyboardInterrupt" "l' = l" "s' = s1"
      by (simp_all add: main_sync_def)
    have "sync_shape env bk [Invoke ''connect_ssh''] r l l'"
      unfolding sync_shape_def using * f1(4) int1 by (intro exI [of _ "[]"]) simp
    with f1 * show ?thesis by simp
  next
    case no1
    with ms c1 have *: "r = Exception ''Failed to establish SSH connection''" "l' = l"
      "s' = emit (Result ''connect_ssh'' False) s1"
      by (simp_all add: main_sync_def)
    have "sync_shape env bk [Invoke ''connect_ssh'', Result ''connect_ssh'' False] r l l'"
      unfolding sync_shape_def using * by (intro exI [of _ "[]"]) simp
    with f1 * show ?thesis by simp
  next
    case int2
    with ms c1 c2 have *: "r = KeyboardInterrupt" "l' = l" "s' = s2"
      by (simp_all add: main_sync_def)
    have "sync_shape env bk
            ([Invoke ''connect_ssh'', Result ''connect_ssh'' True, Invoke ''rsync_backup''] @ p)
            r l l'"
      unfolding sync_shape_def
    proof (intro exI [of _ p] conjI)
      show "p = [] \<or> (\<exists>c e. p = [Popen c e])
              \<and> path_exists env (local_dir (self_backup bk)) = Ok True"
        by (rule f2(2))
    qed (use * f2(5,7) int2 in simp)
    with f2(1,3) * show ?thesis by simp
  next
    case no2
    with ms c1 c2 have *: "r = Exception ''Backup failed''" "l' = l"
      "s' = emit (Result ''rsync_backup'' False) s2"
      by (simp_all add: main_sync_def)
    have "sync_shape env bk
            ([Invoke ''connect_ssh'', Result ''connect_ssh'' True, Invoke ''rsync_backup''] @ p
             @ [Result ''rsync_backup'' False])
            r l l'"
      unfolding sync_shape_def
    proof (intro exI [of _ p] conjI)
      show "p = [] \<or> (\<exists>c e. p = [Popen c e])
              \<and> path_exists env (local_dir (self_backup bk)) = Ok True"
        by (rule f2(2))
    qed (use * in simp)
    with f2(1,3) * show ?thesis by simp
  next
    case int3
    with ms c1 c2 c3 have *: "r = KeyboardInterrupt" "l' = l" "s' = s3"
      by (simp_all add: main_sync_def)
    have "sync_shape env bk
            ([Invoke ''connect_ssh'', Result ''connect_ssh'' True, Invoke ''rsync_backup''] @ p
             @ [Result ''rsync_backup'' True, Invoke ''get_directory_size''])
            r l l'"
      unfolding sync_shape_def
    proof (intro exI [of _ p] conjI)
      show "p = [] \<or> (\<exists>c e. p = [Popen c e])
              \<and> path_exists env (local_dir (self_backup bk)) = Ok True"
        by (rule f2(2))
    qed (use * f3(4) f2(6) int3 in simp)
    with f3(1,2) * show ?thesis by simp
  next
    case int4
    with ms c1 c2 c3 c4 have *: "r = KeyboardInterrupt" "l' = l\<lparr>file_size := Some sz\<rparr>"
      "s' = s4"
      by (simp_all add: main_sync_def Let_def)
    have "sync_shape env bk
            ([Invoke ''connect_ssh'', Result ''connect_ssh'' True, Invoke ''rsync_backup''] @ p
             @ [Result ''rsync_backup'' True, Invoke ''get_directory_size'',
                Invoke ''shutdown_nas''])
            r l l'"
      unfolding sync_shape_def
    proof (intro exI [of _ p] conjI)
      show "p = [] \<or> (\<exists>c e. p = [Popen c e])
              \<and> path_exists env (local_dir (self_backup bk)) = Ok True"
        by (rule f2(2))
    qed (use * f4(4) f2(6) int4 in auto)
    with f4(1,2) * show ?thesis by simp
  next
    case completed
    let ?s5 = "emit (Result ''shutdown_nas'' v) s4"
    let ?s6 = "if \<not> v then logging WARNING ''Failed to shutdown NAS, please check manually'' ?s5
               else ?s5"
    from completed ms c1 c2 c3 c4
    have *: "r = Return ()" "l' = l\<lparr>file_size := Some sz, success := True\<rparr>"
      "s' = logging INFO banner
              (logging INFO ''Backup process completed successfully!''
                 (logging INFO (nl @ banner) ?s6))"
      by (simp_all add: main_sync_def Let_def)
    have "sync_shape env bk
            ([Invoke ''connect_ssh'', Result ''connect_ssh'' True, Invoke ''rsync_backup''] @ p
             @ [Result ''rsync_backup'' True, Invoke ''get_directory_size'',
                Invoke ''shutdown_nas'', Result ''shutdown_nas'' v])
            r l l'"
      unfolding sync_shape_def
    proof (intro exI [of _ p] conjI)
      show "p = [] \<or> (\<exists>c e. p = [Popen c e])
              \<and> path_exists env (local_dir (self_backup bk)) = Ok True"
        by (rule f2(2))
    qed (use * f2(6) completed in auto)
    moreover have "marks s' = marks s4 @ [Result ''shutdown_nas'' v]"
      "ssh_client s' = ssh_client s4"
      using *(3) by (cases v; simp)+
    ultimately show ?thesis using f4(1,2) by simp
  qed
qed


lemma main_try_shape:
  assumes mt: "main_try config bk env l s = Some (r, l', s')" and nc: "ssh_client s = None"
  shows "\<exists>ms. marks s' = marks s @ ms \<and> try_shape env bk ms r l l' (ssh_client s')"
proof -
  let ?s0 = "emit (Invoke ''send_wol'')
               (logging INFO (nl @ ''[Step 1] Wake NAS'')
                  (logging INFO banner
                     (logging INFO (''Execution time: '' @ now_text env)
                        (logging INFO ''PVE Backup Sync to NAS Started''
                           (logging INFO banner s)))))"
  obtain x1 s1 where c1: "send_wol bk env ?s0 = (x1, s1)"
    by (cases "send_wol bk env ?s0")
  from send_wol_frame [OF c1] send_wol_result [OF c1] nc
  have f1: "marks s1 = marks s @ [Invoke ''send_wol'']" "ssh_client s1 = None"
    "\<And>e. x1 \<noteq> Exception e" "x1 = KeyboardInterrupt \<longrightarrow> interrupt_at env \<noteq> None"
    by auto
  let ?s2 = "emit (Invoke ''wait_for_online'')
               (logging INFO (nl @ ''[Step 2] Wait for NAS to be online'')
                  (emit (Result ''send_wol'' True) s1))"
  consider (int1) "x1 = KeyboardInterrupt" | (no1) "x1 = Return False" | (ok1) "x1 = Return True"
    using f1(3) by (cases x1) auto
  then show ?thesis
  proof cases
    case int1
    with mt c1 have *: "r = KeyboardInterrupt" "l' = l" "s' = s1"
      by (simp_all add: main_try_def)
    have "try_shape env bk [Invoke ''send_wol''] r l l' (ssh_client s')"
      unfolding try_shape_def using * f1 int1 by simp
    with f1 * show ?thesis by simp
  next
    case no1
    with mt c1 have *: "r = Exception ''Failed to send WOL packet''" "l' = l"
      "s' = emit (Result ''send_wol'' False) s1"
      by (simp_all add: main_try_def)
    have "try_shape env bk [Invoke ''send_wol'', Result ''send_wol'' False] r l l' (ssh_client s')"
      unfolding try_shape_def using * f1 by simp
    with f1 * show ?thesis by simp
  next
    case ok1
    with mt c1 obtain x2 s2 where c2: "wait_for_online bk env ?s2 = Some (x2, s2)"
      by (cases "wait_for_online bk env ?s2") (auto simp: main_try_def)
    from wait_for_online_frame [OF c2] f1
    have f2: "marks s2 = marks s @ [Invoke ''send_wol'', Result ''send_wol'' True,
                                    Invoke ''wait_for_online'']"
      "ssh_client s2 = None" "x2 = KeyboardInterrupt \<longrightarrow> interrupt_at env \<noteq> None"
      by auto
    consider (int2) "x2 = KeyboardInterrupt" | (exc2) e where "x2 = Exception e"
      | (no2) "x2 = Return False" | (ok2) "x2 = Return True"
      by (cases x2) auto
    then show ?thesis
    proof cases
      case int2
      with mt c1 c2 ok1 have *: "r = KeyboardInterrupt" "l' = l" "s' = s2"
        by (simp_all add: main_try_def)
      have "try_shape env bk [Invoke ''send_wol'', Result ''send_wol'' True,
                              Invoke ''wait_for_online''] r l l' (ssh_client s')"
        unfolding try_shape_def using * f2 int2 by simp
      with f2 * show ?thesis by simp
    next
      case exc2
      with mt c1 c2 ok1 have *: "r = Exception e" "l' = l" "s' = s2"
        by (simp_all add: main_try_def)
      have "try_shape env bk [Invoke ''send_wol'', Result ''send_wol'' True,
                              Invoke ''wait_for_online''] r l l' (ssh_client s')"
        unfolding try_shape_def using * f2 by simp
      with f2 * show ?thesis by simp
    next
      case no2
      with mt c1 c2 ok1 have *: "r = Exception ''NAS failed to come online''" "l' = l"
        "s' = emit (Result ''wait_for_online'' False) s2"
        by (simp_all add: main_try_def)
      have "try_shape env bk [Invoke ''send_wol'', Result ''send_wol'' True,
                              Invoke ''wait_for_online'', Result ''wait_for_online'' False]
              r l l' (ssh_client s')"
        unfolding try_shape_def using * f2 by simp
      with f2 * show ?thesis by simp
    next
      case ok2
      let ?s3 = "emit (Result ''wait_for_online'' True) s2"
      from ok2 mt c1 c2 ok1 have c3: "main_sync config bk env l ?s3 = (r, l', s')"
        by (simp add: main_try_def)
      from main_sync_shape [OF c3] f2 obtain ms' where
        f3: "ssh_client s' = Some SSHClient"
          "marks s' = marks s @ [Invoke ''send_wol'', Result ''send_wol'' True,
                                 Invoke ''wait_for_online'', Result ''wait_for_online'' True]
                      @ ms'"
          "sync_shape env bk ms' r l l'"
        by auto
      have "try_shape env bk
              ([Invoke ''send_wol'', Result ''send_wol'' True, Invoke ''wait_for_online'',
                Result ''wait_for_online'' True] @ ms') r l l' (ssh_client s')"
        unfolding try_shape_def using f3(1,3) by simp
      with f3(2) show ?thesis by blast
    qed
  qed
qed


lemma close_ssh_frame:
  "marks (close_ssh bk s) = marks s @ (if ssh_client s = None then [] else [SessionClose])
   \<and> ssh_client (close_ssh bk s) = ssh_client s"
  by (simp add: close_ssh_def split: option.splits)

lemma main_except_frame:
  "main_except env r l s = (l2, s2) \<Longrightarrow>
     marks s2 = marks s \<and> ssh_client s2 = ssh_client s
     \<and> l2 = (case r of Return u \<Rightarrow> l
                      | Exception e \<Rightarrow> l\<lparr>error_msg := Some e\<rparr>
                      | KeyboardInterrupt \<Rightarrow> l\<lparr>error_msg := Some ''User interrupted''\<rparr>)"
  by (cases r) auto

lemma send_discord_notification_frame:
  "url \<noteq> [] \<Longrightarrow>
     \<exists>p. marks (send_discord_notification env url ok d fs em s) = marks s @ [Post url p 10]
         \<and> ssh_client (send_discord_notification env url ok d fs em s) = ssh_client s"
  by (simp add: send_discord_notification_def Let_def split: reply.splits)

lemma main_finally_frame:
  "\<exists>posts. marks (final (main_finally config bk env t l s))
            = marks s @ [Invoke ''close_ssh'']
              @ (if ssh_client s = None then [] else [SessionClose]) @ posts
     \<and> (if enabled (notification config)
             \<and> (success l \<and> on_success (notification config)
                 \<or> \<not> success l \<and> on_failure (notification config))
             \<and> truthy (discord_webhook (notification config))
         then \<exists>p. posts = [Post (the (discord_webhook (notification config))) p 10]
         else posts = [])
     \<and> ssh_client (final (main_finally config bk env t l s)) = ssh_client s
     \<and> outcome (main_finally config bk env t l s) = l
     \<and> exit_code (main_finally config bk env t l s) = (if success l then 0 else 1)"
proof (cases "enabled (notification config)
             \<and> (success l \<and> on_success (notification config)
                 \<or> \<not> success l \<and> on_failure (notification config))
             \<and> truthy (discord_webhook (notification config))")
  case True
  then obtain url where u: "discord_webhook (notification config) = Some url" "url \<noteq> []"
    by (cases "discord_webhook (notification config)") auto
  let ?s1 = "close_ssh bk (emit (Invoke ''close_ssh'') s)"
  from send_discord_notification_frame [OF u(2), of env "success l" "clock ?s1 - t"
      "file_size l" "error_msg l" ?s1]
  obtain p where
    "marks (send_discord_notification env url (success l) (clock ?s1 - t) (file_size l)
              (error_msg l) ?s1) = marks ?s1 @ [Post url p 10]"
    "ssh_client (send_discord_notification env url (success l) (clock ?s1 - t) (file_size l)
              (error_msg l) ?s1) = ssh_client ?s1"
    by blast
  with True u show ?thesis
    by (intro exI [of _ "[Post url p 10]"]) (simp add: main_finally_def Let_def close_ssh_frame)
next
  case False
  then show ?thesis
    by (intro exI [of _ "[]"]) (auto simp: main_finally_def Let_def close_ssh_frame)
qed

lemma main_run_shape:
  assumes "main_run config env = Some run"
  shows "\<exists>ms r l' posts.
           try_shape env
             (fst (NASBackup_init env (nas config) (backup config) (log_cfg config) initial))
             ms r \<lparr>success = False, error_msg = None, file_size = None\<rparr> l'
             (ssh_client (final run))
         \<and> outcome run = (case r of Return u \<Rightarrow> l'
                           | Exception e \<Rightarrow> l'\<lparr>error_msg := Some e\<rparr>
                           | KeyboardInterrupt \<Rightarrow> l'\<lparr>error_msg := Some ''User interrupted''\<rparr>)
         \<and> exit_code run = (if success (outcome run) then 0 else 1)
         \<and> marks (final run)
             = ms @ [Invoke ''close_ssh'']
               @ (if ssh_client (final run) = None then [] else [SessionClose]) @ posts
         \<and> (if enabled (notification config)
                 \<and> (success (outcome run) \<and> on_success (notification config)
                     \<or> \<not> success (outcome run) \<and> on_failure (notification config))
                 \<and> truthy (discord_webhook (notification config))
             then \<exists>p. posts = [Post (the (discord_webhook (notification config))) p 10]
             else posts = [])"
proof -
  obtain bk s0 where i: "NASBackup_init env (nas config) (backup config) (log_cfg config) initial
                         = (bk, s0)"
    by (cases "NASBackup_init env (nas config) (backup config) (log_cfg config) initial")
  then have s0: "marks s0 = []" "ssh_client s0 = None"
    by (auto simp: NASBackup_init_def initial_def marks_def)
  let ?l0 = "\<lparr>success = False, error_msg = None, file_size = None\<rparr>"
  from assms i obtain r l1 s1 where t: "main_try config bk env ?l0 s0 = Some (r, l1, s1)"
    by (auto simp: main_run_def Let_def split: option.splits)
  obtain l2 s2 where e: "main_except env r l1 s1 = (l2, s2)"
    by (cases "main_except env r l1 s1")
  from assms i t e have run: "run = main_finally config bk env (clock s0) l2 s2"
    by (simp add: main_run_def Let_def)
  from main_try_shape [OF t s0(2)] s0(1) obtain ms where
    ms: "marks s1 = ms" "try_shape env bk ms r ?l0 l1 (ssh_client s1)"
    by auto
  note fe = main_except_frame [OF e]
  from main_finally_frame [of config bk env "clock s0" l2 s2] obtain posts where
    ff: "marks (final run) = marks s2 @ [Invoke ''close_ssh'']
              @ (if ssh_client s2 = None then [] else [SessionClose]) @ posts"
      "if enabled (notification config)
             \<and> (success l2 \<and> on_success (notification config)
                 \<or> \<not> success l2 \<and> on_failure (notification config))
             \<and> truthy (discord_webhook (notification config))
         then \<exists>p. posts = [Post (the (discord_webhook (notification config))) p 10]
         else posts = []"
      "ssh_client (final run) = ssh_client s2"
      "outcome run = l2"
      "exit_code run = (if success l2 then 0 else 1)"
    unfolding run by blast
  show ?thesis
    apply (rule exI [of _ ms], rule exI [of _ r], rule exI [of _ l1], rule exI [of _ posts])
    using ms fe ff i by simp
qed


lemma sync_shape_quiet:
  assumes "sync_shape env bk ms r l l'"
  shows "SessionClose \<notin> set ms" "Invoke ''close_ssh'' \<notin> set ms" "\<not> list_ex is_post ms"
    "Invoke ''send_wol'' \<notin> set ms" "Invoke ''connect_ssh'' \<in> set ms"
  using assms unfolding sync_shape_def by auto

lemma try_shape_quiet:
  assumes "try_shape env bk ms r l l' c"
  shows "SessionClose \<notin> set ms" "Invoke ''close_ssh'' \<notin> set ms" "\<not> list_ex is_post ms"
    "(c \<noteq> None) = (Invoke ''connect_ssh'' \<in> set ms)"
  using assms sync_shape_quiet unfolding try_shape_def by auto

lemma sync_shape_order:
  assumes "sync_shape env bk ms r l l'"
  shows "Result ''wait_for_online'' False \<notin> set ms"
  using assms unfolding sync_shape_def by auto

lemma try_shape_order:
  assumes "try_shape env bk ms r l l' c"
  shows "Invoke ''rsync_backup'' \<in> set ms \<Longrightarrow>
           \<exists>Q. ms = [Invoke ''send_wol'', Result ''send_wol'' True, Invoke ''wait_for_online'',
                      Result ''wait_for_online'' True] @ Q"
    "Result ''wait_for_online'' False \<in> set ms \<Longrightarrow> Invoke ''rsync_backup'' \<notin> set ms"
  using assms sync_shape_order unfolding try_shape_def by auto

lemma sync_shape_shutdown:
  assumes "sync_shape env bk ms r l l'" "Result ''shutdown_nas'' v \<in> set ms"
  shows "r = Return () \<and> success l' \<and> error_msg l' = error_msg l"
  using assms unfolding sync_shape_def by auto

lemma try_shape_shutdown:
  assumes "try_shape env bk ms r l l' c" "Result ''shutdown_nas'' v \<in> set ms"
  shows "r = Return () \<and> success l' \<and> error_msg l' = error_msg l"
  using assms sync_shape_shutdown unfolding try_shape_def by auto

lemma sync_shape_size:
  assumes "sync_shape env bk ms r l l'" "Invoke ''get_directory_size'' \<in> set ms"
    "interrupt_at env = None"
  shows "r = Return () \<and> success l' \<and> error_msg l' = error_msg l"
  using assms unfolding sync_shape_def by auto

lemma try_shape_size:
  assumes "try_shape env bk ms r l l' c" "Invoke ''get_directory_size'' \<in> set ms"
    "interrupt_at env = None"
  shows "r = Return () \<and> success l' \<and> error_msg l' = error_msg l"
  using assms sync_shape_size unfolding try_shape_def by auto

lemma sync_shape_missing:
  assumes "sync_shape env bk ms r l l'" "Invoke ''rsync_backup'' \<in> set ms"
    "path_exists env (local_dir (self_backup bk)) = Ok False"
  shows "r = Exception ''Backup failed'' \<and> l' = l \<and> \<not> list_ex is_popen ms"
  using assms unfolding sync_shape_def by auto

lemma try_shape_missing:
  assumes "try_shape env bk ms r l l' c" "Invoke ''rsync_backup'' \<in> set ms"
    "path_exists env (local_dir (self_backup bk)) = Ok False"
  shows "r = Exception ''Backup failed'' \<and> l' = l \<and> \<not> list_ex is_popen ms"
  using assms sync_shape_missing unfolding try_shape_def by auto

subsection \<open>The sample runs\<close>

text \<open>The sample runs are evaluated by rewriting with the definitions.\<close>

lemma example_split:
  "str_split ''-avhP --delete --checksum'' = [''-avhP'', ''--delete'', ''--checksum'']"
  by (simp add: str_split_def space_len_def white_space_def)

lemma example_du_split:
  "str_split ''12G /var/lib/vz/dump'' = [''12G'', ''/var/lib/vz/dump'']"
  by (simp add: str_split_def space_len_def white_space_def)

lemmas run_defs =
  main_run_def main_try_def main_sync_def main_finally_def NASBackup_init_def initial_def
  send_wol_def wait_for_online_def connect_ssh_def rsync_backup_def get_directory_size_def
  shutdown_nas_def close_ssh_def send_discord_notification_def external_def sleep_def
  logging_def emit_def usable_key_def ping_host_def check_ssh_ready_def banner_def nl_def
  wait_for_ping.simps Let_def example_split example_du_split str_int_def digit_def
  example_config_def example_env_def

lemma example_run:
  "\<exists>run. main_run example_config example_env = Some run
      \<and> Invoke ''rsync_backup'' \<in> set (trace (final run))
      \<and> Invoke ''connect_ssh'' \<in> set (trace (final run))
      \<and> success (outcome run)"
  by (simp add: run_defs)

lemma unreachable_run:
  "\<exists>run. main_run short_config env_unreachable = Some run
      \<and> Result ''wait_for_online'' False \<in> set (trace (final run))
      \<and> ssh_client (final run) = None"
  by (simp add: run_defs short_config_def env_unreachable_def)

lemma missing_source_run:
  "\<exists>run. main_run example_config env_missing_source = Some run
      \<and> Invoke ''rsync_backup'' \<in> set (trace (final run))
      \<and> error_msg (outcome run) = Some ''Backup failed''"
  by (simp add: run_defs env_missing_source_def)

lemma quiet_run:
  "\<exists>run. main_run quiet_config env_missing_source = Some run
      \<and> \<not> success (outcome run) \<and> \<not> list_ex is_post (trace (final run))"
  by (simp add: run_defs env_missing_source_def quiet_config_def)

lemma dropped_run:
  "\<exists>run. main_run example_config env_dropped = Some run
      \<and> Result ''shutdown_nas'' True \<in> set (trace (final run))"
  by (simp add: run_defs env_dropped_def)

lemma interrupted_run:
  "\<exists>run. main_run example_config env_interrupted = Some run
      \<and> Invoke ''connect_ssh'' \<in> set (trace (final run))
      \<and> error_msg (outcome run) = Some ''User interrupted''"
  by (simp add: run_defs env_interrupted_def)

lemma du_fails_run:
  "\<exists>run. main_run example_config env_du_fails = Some run
      \<and> Invoke ''get_directory_size'' \<in> set (trace (final run))
      \<and> file_size (outcome run) = Some ''Unknown''"
  by (simp add: run_defs env_du_fails_def)

subsection \<open>The remote session client\<close>

text \<open>
  C10. For every command, \<open>execute_ssh_command\<close> called when no session client has been
  created (\<open>ssh_client\<close> is \<open>None\<close>) raises nothing and returns the tuple
  \<open>(None, None, False)\<close>, leaving the state as it was.
\<close>

theorem execute_ssh_command_without_client:
  "ssh_client s = None \<Longrightarrow>
     execute_ssh_command self env command s = (Return (None, None, False), s)"
  by (simp add: execute_ssh_command_def)

theorem execute_ssh_command_without_client_witness:
  "ssh_client initial = None
   \<and> execute_ssh_command example_self example_env ''uptime'' initial
       = (Return (None, None, False), initial)"
  using execute_ssh_command_without_client [of initial example_self example_env "''uptime''"]
  by (simp add: initial_def)

subsection \<open>The readiness state machine\<close>

lemma clock_logging [simp]: "clock (logging l m s) = clock s"
  by (simp add: logging_def emit_def)

lemma pings_logging [simp]: "pings (logging l m s) = pings s"
  by (simp add: logging_def emit_def)

lemma probes_logging [simp]: "probes (logging l m s) = probes s"
  by (simp add: logging_def emit_def)

lemma trace_logging [simp]: "trace (logging l m s) = trace s @ [Log l m]"
  by (simp add: logging_def emit_def)















subsection \<open>Every run ends\<close>

text \<open>
  The only loop without a bound on its iterations is the liveness loop, which ends when
  the clock passes \<open>max_wait_time\<close>. When no call takes a negative time and
  \<open>ping_interval\<close> is not zero, each iteration moves the clock forward by at least one
  second (or \<open>time.sleep\<close> raises), so \<open>wait_for_online\<close> returns and so does the run.
\<close>

lemma external_clock:
  "external env e r s = (x, s') \<Longrightarrow> 0 \<le> call_time env (calls s) \<Longrightarrow> clock s \<le> clock s'"
  by (auto simp: external_def Let_def emit_def split: if_splits reply.splits)

lemma ping_host_clock:
  "ping_host self env t s = (x, s') \<Longrightarrow> \<forall>k. 0 \<le> call_time env k \<Longrightarrow> clock s \<le> clock s'"
  by (auto simp: ping_host_def split: prod.splits result.splits dest!: external_clock)

lemma sleep_clock:
  "sleep env n s = (Return u, s') \<Longrightarrow> clock s' = clock s + of_int n \<and> 0 \<le> n"
  by (auto simp: sleep_def Let_def emit_def split: if_splits)

lemma wait_for_ping_returns:
  assumes pi: "ping_interval (self_nas self) \<noteq> 0" and ct: "\<forall>k. 0 \<le> call_time env k"
  shows "of_int (max_wait_time (self_nas self)) - (clock s - start) \<le> of_nat n \<Longrightarrow>
         \<exists>y. wait_for_ping self env start s = Some y"
proof (induct n arbitrary: s)
  case 0
  then have "\<not> clock s - start < of_int (max_wait_time (self_nas self))" by simp
  then show ?case by (subst wait_for_ping.simps) simp
next
  case (Suc n)
  obtain x s1 where p: "ping_host self env 1 s = (x, s1)" by (cases "ping_host self env 1 s")
  obtain z s2 where sl: "sleep env (ping_interval (self_nas self)) s1 = (z, s2)"
    by (cases "sleep env (ping_interval (self_nas self)) s1")
  show ?case
  proof (cases "z = Return () \<and> x = Return False
                \<and> clock s - start < of_int (max_wait_time (self_nas self))")
    case False
    with p sl show ?thesis
      by (subst wait_for_ping.simps) (auto split: result.splits)
  next
    case True
    with p sl have step: "wait_for_ping self env start s = wait_for_ping self env start s2"
      by (subst wait_for_ping.simps) simp
    from True sl sleep_clock [of env _ s1 "()" s2]
    have c2: "clock s2 = clock s1 + of_int (ping_interval (self_nas self))"
      "0 \<le> ping_interval (self_nas self)" by auto
    with pi have "(1::rat) \<le> of_int (ping_interval (self_nas self))" by simp
    with c2 ping_host_clock [OF p ct] Suc(2)
    have "of_int (max_wait_time (self_nas self)) - (clock s2 - start) \<le> of_nat n" by simp
    from Suc(1) [OF this] show ?thesis unfolding step .
  qed
qed

lemma wait_for_online_returns:
  assumes "ping_interval (self_nas self) \<noteq> 0" and "\<forall>k. 0 \<le> call_time env k"
  shows "\<exists>y. wait_for_online self env s = Some y"
proof -
  let ?s0 = "logging INFO (''Waiting for NAS ('' @ nas_ip self @ '') to come online...'') s"
  have "of_int (max_wait_time (self_nas self)) - (clock ?s0 - clock ?s0)
          \<le> of_nat (nat (max_wait_time (self_nas self)))"
    by simp
  from wait_for_ping_returns [OF assms this] obtain y where
    "wait_for_ping self env (clock ?s0) ?s0 = Some y" by blast
  then show ?thesis
    by (auto simp: wait_for_online_def Let_def split: prod.splits result.splits)
qed

lemma main_run_returns:
  assumes "ping_interval (nas config) \<noteq> 0" and "\<forall>k. 0 \<le> call_time env k"
  shows "\<exists>run. main_run config env = Some run"
proof -
  let ?bk = "fst (NASBackup_init env (nas config) (backup config) (log_cfg config) initial)"
  have "self_nas ?bk = nas config" by (simp add: NASBackup_init_def)
  with assms(1) have pi: "ping_interval (self_nas ?bk) \<noteq> 0" by simp
  have t: "main_try config ?bk env l s \<noteq> None" for l s
  proof -
    let ?s1 = "emit (Invoke ''send_wol'')
                 (logging INFO (nl @ ''[Step 1] Wake NAS'')
                    (logging INFO banner
                       (logging INFO (''Execution time: '' @ now_text env)
                          (logging INFO ''PVE Backup Sync to NAS Started''
                             (logging INFO banner s)))))"
    obtain x1 s1 where c1: "checked ''send_wol'' ''Failed to send WOL packet''
                              (send_wol ?bk env ?s1) = (x1, s1)"
      by (cases "checked ''send_wol'' ''Failed to send WOL packet'' (send_wol ?bk env ?s1)")
    let ?s2 = "emit (Invoke ''wait_for_online'')
                 (logging INFO (nl @ ''[Step 2] Wait for NAS to be online'') s1)"
    from wait_for_online_returns [OF pi assms(2)] obtain y where
      c2: "wait_for_online ?bk env ?s2 = Some y" by blast
    obtain x2 s2 where c3: "checked ''wait_for_online'' ''NAS failed to come online'' y = (x2, s2)"
      by (cases "checked ''wait_for_online'' ''NAS failed to come online'' y")
    from c1 c2 c3 show ?thesis
      unfolding main_try_def Let_def by (cases x1; cases x2) simp_all
  qed
  obtain bk s0 where i: "NASBackup_init env (nas config) (backup config) (log_cfg config) initial
                         = (bk, s0)"
    by (cases "NASBackup_init env (nas config) (backup config) (log_cfg config) initial")
  then have "bk = ?bk" by simp
  with t [of "\<lparr>success = False, error_msg = None, file_size = None\<rparr>" s0]
  obtain y where "main_try config bk env
                    \<lparr>success = False, error_msg = None, file_size = None\<rparr> s0 = Some y"
    by auto
  with i show ?thesis
    by (cases y; cases "main_except env (fst y) (fst (snd y)) (snd (snd y))")
       (simp add: main_run_def Let_def)
qed

subsection \<open>Runs\<close>

lemma mem_marks: "is_mark e \<Longrightarrow> (e \<in> set (marks s)) = (e \<in> set (trace s))"
  by (simp add: marks_def)

lemma count_list_filter: "P e \<Longrightarrow> count_list (filter P xs) e = count_list xs e"
  by (induct xs) auto

lemma count_marks: "is_mark e \<Longrightarrow> count_list (marks s) e = count_list (trace s) e"
  by (simp add: marks_def count_list_filter)

lemma count_list_absent: "e \<notin> set xs \<Longrightarrow> count_list xs e = 0"
  by (induct xs) auto

lemma list_ex_filter: "(\<And>e. Q e \<Longrightarrow> P e) \<Longrightarrow> list_ex Q (filter P xs) = list_ex Q xs"
  by (induct xs) auto

lemma post_marks: "list_ex is_post (marks s) = list_ex is_post (trace s)"
  unfolding marks_def
proof (rule list_ex_filter)
  fix e show "is_post e \<Longrightarrow> is_mark e" by (cases e) auto
qed

lemma popen_marks: "list_ex is_popen (marks s) = list_ex is_popen (trace s)"
  unfolding marks_def
proof (rule list_ex_filter)
  fix e show "is_popen e \<Longrightarrow> is_mark e" by (cases e) auto
qed

lemma prefix_before:
  assumes "P @ Q = A @ x # B" "x \<notin> set P"
  shows "set P \<subseteq> set A"
proof -
  from assms(1) consider us where "P = A @ us" "us @ Q = x # B"
    | us where "P @ us = A" "Q = us @ x # B"
    by (auto simp: append_eq_append_conv2)
  then show ?thesis
  proof cases
    case 1
    with assms(2) have "us = []" by (cases us) auto
    with 1 show ?thesis by simp
  next
    case 2
    then show ?thesis by auto
  qed
qed

lemma posts_only:
  assumes "if c then \<exists>p. posts = [Post u p t] else posts = []"
  shows "\<forall>e\<in>set posts. is_post e" "list_ex is_post posts = c" "\<not> list_ex is_popen posts"
  using assms by (cases c; auto)+

lemma init_backup:
  "self_backup (fst (NASBackup_init env n b l s)) = b"
  by (simp add: NASBackup_init_def)

text \<open>
  C1. In every run, \<open>rsync_backup\<close> is invoked only after \<open>wait_for_online\<close> has
  returned \<open>True\<close> in that run: every call of \<open>rsync_backup\<close> in the trace has the
  result \<open>True\<close> of \<open>wait_for_online\<close> before it, and a run in which
  \<open>wait_for_online\<close> returned \<open>False\<close> never calls \<open>rsync_backup\<close>.
\<close>

theorem sync_only_after_ready:
  assumes "main_run config env = Some run"
  shows "(\<forall>xs ys. trace (final run) = xs @ Invoke ''rsync_backup'' # ys
            \<longrightarrow> Result ''wait_for_online'' True \<in> set xs)
         \<and> (Result ''wait_for_online'' False \<in> set (trace (final run))
            \<longrightarrow> Invoke ''rsync_backup'' \<notin> set (trace (final run)))"
proof -
  from main_run_shape [OF assms] obtain bk ms r l l' posts where
    sh: "try_shape env bk ms r l l' (ssh_client (final run))"
    and m: "marks (final run) = ms @ [Invoke ''close_ssh'']
               @ (if ssh_client (final run) = None then [] else [SessionClose]) @ posts"
    and po: "if enabled (notification config)
                 \<and> (success (outcome run) \<and> on_success (notification config)
                     \<or> \<not> success (outcome run) \<and> on_failure (notification config))
                 \<and> truthy (discord_webhook (notification config))
             then \<exists>p. posts = [Post (the (discord_webhook (notification config))) p 10]
             else posts = []"
    by blast
  let ?rest = "[Invoke ''close_ssh'']
               @ (if ssh_client (final run) = None then [] else [SessionClose]) @ posts"
  from posts_only(1) [OF po] have rest: "Invoke ''rsync_backup'' \<notin> set ?rest"
    "Result ''wait_for_online'' False \<notin> set ?rest"
    by auto
  let ?P = "[Invoke ''send_wol'', Result ''send_wol'' True, Invoke ''wait_for_online'',
             Result ''wait_for_online'' True]"
  have 1: "Result ''wait_for_online'' True \<in> set xs"
    if t: "trace (final run) = xs @ Invoke ''rsync_backup'' # ys" for xs ys
  proof -
    from t have d: "marks (final run)
        = filter is_mark xs @ Invoke ''rsync_backup'' # filter is_mark ys"
      by (simp add: marks_def)
    then have "Invoke ''rsync_backup'' \<in> set (marks (final run))" by simp
    with m rest(1) have "Invoke ''rsync_backup'' \<in> set ms" by auto
    from try_shape_order(1) [OF sh this] obtain Q where "ms = ?P @ Q" by blast
    with m d have "?P @ (Q @ ?rest) = filter is_mark xs @ Invoke ''rsync_backup'' # filter is_mark ys"
      by simp
    from prefix_before [OF this] have "set ?P \<subseteq> set (filter is_mark xs)" by simp
    then show ?thesis by auto
  qed
  have 2: "Invoke ''rsync_backup'' \<notin> set (trace (final run))"
    if "Result ''wait_for_online'' False \<in> set (trace (final run))"
  proof -
    from that have "Result ''wait_for_online'' False \<in> set (marks (final run))"
      by (simp add: mem_marks)
    with m rest(2) have "Result ''wait_for_online'' False \<in> set ms" by auto
    from try_shape_order(2) [OF sh this] m rest(1)
    have "Invoke ''rsync_backup'' \<notin> set (marks (final run))" by auto
    then show ?thesis by (simp add: mem_marks)
  qed
  from 1 2 show ?thesis by blast
qed

theorem sync_only_after_ready_witness:
  "(\<exists>run. main_run example_config example_env = Some run
       \<and> Invoke ''rsync_backup'' \<in> set (trace (final run))
       \<and> Result ''wait_for_online'' True \<in> set (trace (final run)))
   \<and> (\<exists>run. main_run short_config env_unreachable = Some run
       \<and> Result ''wait_for_online'' False \<in> set (trace (final run))
       \<and> Invoke ''rsync_backup'' \<notin> set (trace (final run)))"
proof -
  from example_run obtain run where
    r: "main_run example_config example_env = Some run"
    and i: "Invoke ''rsync_backup'' \<in> set (trace (final run))"
    by blast
  from i obtain xs ys where "trace (final run) = xs @ Invoke ''rsync_backup'' # ys"
    by (auto dest: split_list)
  with sync_only_after_ready [OF r] have "Result ''wait_for_online'' True \<in> set xs"
    by blast
  with \<open>trace (final run) = xs @ Invoke ''rsync_backup'' # ys\<close>
  have 1: "Result ''wait_for_online'' True \<in> set (trace (final run))" by simp
  from unreachable_run obtain run' where
    r': "main_run short_config env_unreachable = Some run'"
    and f: "Result ''wait_for_online'' False \<in> set (trace (final run'))"
    by blast
  from sync_only_after_ready [OF r'] f
  have 2: "Invoke ''rsync_backup'' \<notin> set (trace (final run'))" by blast
  from r i 1 r' f 2 show ?thesis by blast
qed

text \<open>
  C2. On every exit path of a run (success, failure of any phase, interruption by the
  user) the cleanup of \<open>main\<close> calls \<open>close_ssh\<close> exactly once, and \<open>close_ssh\<close>
  closes the client exactly once if one was created and not at all otherwise; a client
  exists exactly when \<open>connect_ssh\<close> was called.
\<close>

theorem session_closed_once:
  assumes "main_run config env = Some run"
  shows "count_list (trace (final run)) (Invoke ''close_ssh'') = 1
         \<and> count_list (trace (final run)) SessionClose
             = (if ssh_client (final run) = None then 0 else 1)
         \<and> ((ssh_client (final run) \<noteq> None)
             = (Invoke ''connect_ssh'' \<in> set (trace (final run))))"
proof -
  from main_run_shape [OF assms] obtain bk ms r l l' posts where
    sh: "try_shape env bk ms r l l' (ssh_client (final run))"
    and m: "marks (final run) = ms @ [Invoke ''close_ssh'']
               @ (if ssh_client (final run) = None then [] else [SessionClose]) @ posts"
    and po: "if enabled (notification config)
                 \<and> (success (outcome run) \<and> on_success (notification config)
                     \<or> \<not> success (outcome run) \<and> on_failure (notification config))
                 \<and> truthy (discord_webhook (notification config))
             then \<exists>p. posts = [Post (the (discord_webhook (notification config))) p 10]
             else posts = []"
    by blast
  note q = try_shape_quiet [OF sh]
  from posts_only(1) [OF po] have p: "Invoke ''close_ssh'' \<notin> set posts"
    "SessionClose \<notin> set posts" "Invoke ''connect_ssh'' \<notin> set posts"
    by auto
  have "count_list (marks (final run)) (Invoke ''close_ssh'') = 1"
    unfolding m using q(2) p(1) by (simp add: count_list_absent)
  moreover have "count_list (marks (final run)) SessionClose
                   = (if ssh_client (final run) = None then 0 else 1)"
    unfolding m using q(1) p(2) by (simp add: count_list_absent)
  moreover have "(Invoke ''connect_ssh'' \<in> set (marks (final run)))
                   = (ssh_client (final run) \<noteq> None)"
    unfolding m using q(4) p(3) by auto
  ultimately show ?thesis by (simp add: count_marks mem_marks)
qed

theorem session_closed_once_witness:
  "(\<exists>run. main_run example_config example_env = Some run
       \<and> count_list (trace (final run)) (Invoke ''close_ssh'') = 1
       \<and> count_list (trace (final run)) SessionClose = 1)
   \<and> (\<exists>run. main_run short_config env_unreachable = Some run
       \<and> count_list (trace (final run)) (Invoke ''close_ssh'') = 1
       \<and> count_list (trace (final run)) SessionClose = 0)
   \<and> (\<exists>run. main_run example_config env_interrupted = Some run
       \<and> error_msg (outcome run) = Some ''User interrupted''
       \<and> count_list (trace (final run)) (Invoke ''close_ssh'') = 1
       \<and> count_list (trace (final run)) SessionClose = 1)"
proof -
  from example_run obtain run where
    r: "main_run example_config example_env = Some run"
    and i: "Invoke ''connect_ssh'' \<in> set (trace (final run))"
    by blast
  from session_closed_once [OF r] i
  have 1: "count_list (trace (final run)) (Invoke ''close_ssh'') = 1
           \<and> count_list (trace (final run)) SessionClose = 1"
    by (simp split: if_splits)
  from unreachable_run obtain run' where
    r': "main_run short_config env_unreachable = Some run'"
    and c: "ssh_client (final run') = None"
    by blast
  from session_closed_once [OF r'] c
  have 2: "count_list (trace (final run')) (Invoke ''close_ssh'') = 1
           \<and> count_list (trace (final run')) SessionClose = 0"
    by simp
  from interrupted_run obtain run'' where
    r'': "main_run example_config env_interrupted = Some run''"
    and i'': "Invoke ''connect_ssh'' \<in> set (trace (final run''))"
    and e'': "error_msg (outcome run'') = Some ''User interrupted''"
    by blast
  from session_closed_once [OF r''] i''
  have 3: "count_list (trace (final run'')) (Invoke ''close_ssh'') = 1
           \<and> count_list (trace (final run'')) SessionClose = 1"
    by (simp split: if_splits)
  from r 1 r' 2 r'' e'' 3 show ?thesis by blast
qed

text \<open>
  C5, as amended. The webhook is posted if and only if \<open>notification.enabled\<close> is true,
  the outcome matches the toggles (\<open>on_success\<close> for a successful run, \<open>on_failure\<close>
  for a failed one) and a non-empty \<open>discord_webhook\<close> is configured.
\<close>

theorem notification_when_due:
  assumes "main_run config env = Some run"
  shows "list_ex is_post (trace (final run))
           = (enabled (notification config)
              \<and> (success (outcome run) \<and> on_success (notification config)
                  \<or> \<not> success (outcome run) \<and> on_failure (notification config))
              \<and> truthy (discord_webhook (notification config)))"
proof -
  from main_run_shape [OF assms] obtain bk ms r l l' posts where
    sh: "try_shape env bk ms r l l' (ssh_client (final run))"
    and m: "marks (final run) = ms @ [Invoke ''close_ssh'']
               @ (if ssh_client (final run) = None then [] else [SessionClose]) @ posts"
    and po: "if enabled (notification config)
                 \<and> (success (outcome run) \<and> on_success (notification config)
                     \<or> \<not> success (outcome run) \<and> on_failure (notification config))
                 \<and> truthy (discord_webhook (notification config))
             then \<exists>p. posts = [Post (the (discord_webhook (notification config))) p 10]
             else posts = []"
    by blast
  note q = try_shape_quiet [OF sh]
  have "list_ex is_post (marks (final run)) = list_ex is_post posts"
    unfolding m using q(3) by simp
  with posts_only(2) [OF po] show ?thesis by (simp add: post_marks)
qed


theorem notification_when_due_witness:
  "\<exists>run. main_run example_config example_env = Some run
      \<and> success (outcome run) \<and> list_ex is_post (trace (final run))"
proof -
  from example_run obtain run where
    r: "main_run example_config example_env = Some run" and s: "success (outcome run)"
    by blast
  from notification_when_due [OF r] s have "list_ex is_post (trace (final run))"
    by (simp add: example_config_def)
  with r s show ?thesis by blast
qed

theorem notification_when_due_counterexample:
  "main_run quiet_config env_missing_source \<noteq> None
   \<and> enabled (notification quiet_config) \<and> on_failure (notification quiet_config)
   \<and> \<not> success (outcome (the (main_run quiet_config env_missing_source)))
   \<and> \<not> list_ex is_post (trace (final (the (main_run quiet_config env_missing_source))))"
  using quiet_run by (auto simp: quiet_config_def example_config_def)

text \<open>
  C6, as amended. When the source directory does not exist, \<open>rsync_backup\<close> returns
  \<open>False\<close> at once, having only logged the error "Source directory does not exist: ...";
  a run that reaches the sync phase starts no rsync process, has \<open>success = False\<close>, the
  error message "Backup failed" and the exit code 1.
\<close>

theorem missing_source_fails:
  assumes "path_exists env (local_dir (backup config)) = Ok False"
    and "self_backup self = backup config"
    and "main_run config env = Some run"
    and "Invoke ''rsync_backup'' \<in> set (trace (final run))"
  shows "rsync_backup self env s
           = (Return False,
              logging ERROR (''Source directory does not exist: '' @ local_dir (backup config)) s)
         \<and> \<not> list_ex is_popen (trace (final run))
         \<and> \<not> success (outcome run)
         \<and> error_msg (outcome run) = Some ''Backup failed''
         \<and> exit_code run = 1"
proof -
  have f: "rsync_backup self env s
           = (Return False,
              logging ERROR (''Source directory does not exist: '' @ local_dir (backup config)) s)"
    using assms(1,2) by (simp add: rsync_backup_def)
  from main_run_shape [OF assms(3)] obtain ms r l' posts where
    sh: "try_shape env
           (fst (NASBackup_init env (nas config) (backup config) (log_cfg config) initial))
           ms r \<lparr>success = False, error_msg = None, file_size = None\<rparr> l'
           (ssh_client (final run))"
    and oc: "outcome run = (case r of Return u \<Rightarrow> l'
                           | Exception e \<Rightarrow> l'\<lparr>error_msg := Some e\<rparr>
                           | KeyboardInterrupt \<Rightarrow> l'\<lparr>error_msg := Some ''User interrupted''\<rparr>)"
    and ec: "exit_code run = (if success (outcome run) then 0 else 1)"
    and m: "marks (final run) = ms @ [Invoke ''close_ssh'']
               @ (if ssh_client (final run) = None then [] else [SessionClose]) @ posts"
    and po: "if enabled (notification config)
                 \<and> (success (outcome run) \<and> on_success (notification config)
                     \<or> \<not> success (outcome run) \<and> on_failure (notification config))
                 \<and> truthy (discord_webhook (notification config))
             then \<exists>p. posts = [Post (the (discord_webhook (notification config))) p 10]
             else posts = []"
    by blast
  from posts_only(1,3) [OF po] have p: "Invoke ''rsync_backup'' \<notin> set posts"
    "\<not> list_ex is_popen posts"
    by auto
  from assms(4) have "Invoke ''rsync_backup'' \<in> set (marks (final run))"
    by (simp add: mem_marks)
  with m p(1) have "Invoke ''rsync_backup'' \<in> set ms" by (auto split: if_splits)
  from try_shape_missing [OF sh this] assms(1)
  have r: "r = Exception ''Backup failed''"
    "l' = \<lparr>success = False, error_msg = None, file_size = None\<rparr>"
    "\<not> list_ex is_popen ms"
    by (simp_all add: init_backup)
  from r(3) p(2) have "\<not> list_ex is_popen (marks (final run))"
    unfolding m by simp
  with f r oc ec show ?thesis by (simp add: popen_marks)
qed

theorem missing_source_fails_witness:
  "path_exists env_missing_source (local_dir (backup example_config)) = Ok False
   \<and> fst (rsync_backup (backup_of example_config env_missing_source) env_missing_source initial)
       = Return False
   \<and> (\<exists>run. main_run example_config env_missing_source = Some run
         \<and> Invoke ''rsync_backup'' \<in> set (trace (final run))
         \<and> \<not> list_ex is_popen (trace (final run))
         \<and> \<not> success (outcome run)
         \<and> error_msg (outcome run) = Some ''Backup failed''
         \<and> exit_code run = 1)"
proof -
  have p: "path_exists env_missing_source (local_dir (backup example_config)) = Ok False"
    by (simp add: env_missing_source_def example_config_def example_env_def)
  have b: "self_backup (backup_of example_config env_missing_source) = backup example_config"
    by (simp add: backup_of_def NASBackup_init_def)
  from missing_source_run obtain run where
    r: "main_run example_config env_missing_source = Some run"
    and i: "Invoke ''rsync_backup'' \<in> set (trace (final run))"
    by blast
  from missing_source_fails [OF p b r i, of initial] p r i show ?thesis by auto
qed

theorem missing_source_fails_counterexample:
  "path_exists env_missing_source (local_dir (backup example_config)) = Ok False
   \<and> main_run example_config env_missing_source \<noteq> None
   \<and> error_msg (outcome (the (main_run example_config env_missing_source)))
       = Some ''Backup failed''
   \<and> \<not> contains ''Backup failed'' ''does not exist''"
  using missing_source_run
  by (auto simp: env_missing_source_def example_config_def example_env_def)

text \<open>
  C7. Over an open session \<open>shutdown_nas\<close> returns \<open>True\<close> whatever the shutdown command
  answers, in particular when the connection drops and the command raises; and once
  \<open>shutdown_nas\<close> has returned, with either result, the run is successful: \<open>success\<close>
  is true, there is no error message and the exit code is 0.
\<close>

theorem shutdown_best_effort:
  assumes "ssh_client s = Some c"
    and "interrupt_at env \<noteq> Some (calls s)"
    and "main_run config env = Some run"
    and "Result ''shutdown_nas'' v \<in> set (trace (final run))"
  shows "fst (shutdown_nas self env s) = Return True
         \<and> success (outcome run) \<and> error_msg (outcome run) = None \<and> exit_code run = 0"
proof -
  have f: "fst (shutdown_nas self env s) = Return True"
    using assms(1,2)
    by (simp add: shutdown_nas_def external_def logging_def emit_def Let_def split: reply.splits)
  from main_run_shape [OF assms(3)] obtain bk ms r l' posts where
    sh: "try_shape env bk ms r \<lparr>success = False, error_msg = None, file_size = None\<rparr> l'
           (ssh_client (final run))"
    and oc: "outcome run = (case r of Return u \<Rightarrow> l'
                           | Exception e \<Rightarrow> l'\<lparr>error_msg := Some e\<rparr>
                           | KeyboardInterrupt \<Rightarrow> l'\<lparr>error_msg := Some ''User interrupted''\<rparr>)"
    and ec: "exit_code run = (if success (outcome run) then 0 else 1)"
    and m: "marks (final run) = ms @ [Invoke ''close_ssh'']
               @ (if ssh_client (final run) = None then [] else [SessionClose]) @ posts"
    and po: "if enabled (notification config)
                 \<and> (success (outcome run) \<and> on_success (notification config)
                     \<or> \<not> success (outcome run) \<and> on_failure (notification config))
                 \<and> truthy (discord_webhook (notification config))
             then \<exists>p. posts = [Post (the (discord_webhook (notification config))) p 10]
             else posts = []"
    by blast
  from posts_only(1) [OF po] have p: "Result ''shutdown_nas'' v \<notin> set posts" by auto
  from assms(4) have "Result ''shutdown_nas'' v \<in> set (marks (final run))"
    by (simp add: mem_marks)
  with m p have "Result ''shutdown_nas'' v \<in> set ms" by (auto split: if_splits)
  from try_shape_shutdown [OF sh this] f oc ec show ?thesis by simp
qed

theorem shutdown_best_effort_witness:
  "exec_command env_dropped ''sudo shutdown -h now'' = Fails ''Socket is closed''
   \<and> fst (shutdown_nas example_self env_dropped (initial\<lparr>ssh_client := Some SSHClient\<rparr>))
       = Return True
   \<and> (\<exists>run. main_run example_config env_dropped = Some run
         \<and> Result ''shutdown_nas'' True \<in> set (trace (final run))
         \<and> success (outcome run) \<and> exit_code run = 0)"
proof -
  have e: "exec_command env_dropped ''sudo shutdown -h now'' = Fails ''Socket is closed''"
    by (simp add: env_dropped_def)
  have c: "ssh_client (initial\<lparr>ssh_client := Some SSHClient\<rparr>) = Some SSHClient" by simp
  have n: "interrupt_at env_dropped \<noteq> Some (calls (initial\<lparr>ssh_client := Some SSHClient\<rparr>))"
    by (simp add: env_dropped_def example_env_def)
  from dropped_run obtain run where
    r: "main_run example_config env_dropped = Some run"
    and i: "Result ''shutdown_nas'' True \<in> set (trace (final run))"
    by blast
  from shutdown_best_effort [OF c n r i, of example_self] e r i show ?thesis by auto
qed

text \<open>
  C9, as amended. When the size computation fails (\<open>du\<close> raises an exception, exits
  with a non-zero code or prints nothing) and the user does not interrupt,
  \<open>get_directory_size\<close> returns
  the string "Unknown" instead of raising, and a run that has reached the size probe is
  successful with exit code 0.
\<close>

theorem size_probe_best_effort:
  assumes "interrupt_at env = None"
    and "(\<exists>m. subprocess_run env [''du'', ''-sh'', path] = Fails m)
         \<or> (\<exists>rc out. subprocess_run env [''du'', ''-sh'', path] = Ok (rc, out) \<and> rc \<noteq> 0)
         \<or> (\<exists>out. subprocess_run env [''du'', ''-sh'', path] = Ok (0, out)
                    \<and> str_split out = [])"
    and "main_run config env = Some run"
    and "Invoke ''get_directory_size'' \<in> set (trace (final run))"
  shows "fst (get_directory_size env path s) = Return ''Unknown''
         \<and> success (outcome run) \<and> exit_code run = 0"
proof -
  have f: "fst (get_directory_size env path s) = Return ''Unknown''"
    using assms(1,2) by (auto simp: get_directory_size_def external_def Let_def)
  from main_run_shape [OF assms(3)] obtain bk ms r l' posts where
    sh: "try_shape env bk ms r \<lparr>success = False, error_msg = None, file_size = None\<rparr> l'
           (ssh_client (final run))"
    and oc: "outcome run = (case r of Return u \<Rightarrow> l'
                           | Exception e \<Rightarrow> l'\<lparr>error_msg := Some e\<rparr>
                           | KeyboardInterrupt \<Rightarrow> l'\<lparr>error_msg := Some ''User interrupted''\<rparr>)"
    and ec: "exit_code run = (if success (outcome run) then 0 else 1)"
    and m: "marks (final run) = ms @ [Invoke ''close_ssh'']
               @ (if ssh_client (final run) = None then [] else [SessionClose]) @ posts"
    and po: "if enabled (notification config)
                 \<and> (success (outcome run) \<and> on_success (notification config)
                     \<or> \<not> success (outcome run) \<and> on_failure (notification config))
                 \<and> truthy (discord_webhook (notification config))
             then \<exists>p. posts = [Post (the (discord_webhook (notification config))) p 10]
             else posts = []"
    by blast
  from posts_only(1) [OF po] have p: "Invoke ''get_directory_size'' \<notin> set posts" by auto
  from assms(4) have "Invoke ''get_directory_size'' \<in> set (marks (final run))"
    by (simp add: mem_marks)
  with m p have "Invoke ''get_directory_size'' \<in> set ms" by (auto split: if_splits)
  from try_shape_size [OF sh this assms(1)] f oc ec show ?thesis by simp
qed

theorem size_probe_best_effort_witness:
  "subprocess_run env_du_fails [''du'', ''-sh'', ''/var/lib/vz/dump''] = Fails ''timed out''
   \<and> fst (get_directory_size env_du_fails ''/var/lib/vz/dump'' initial) = Return ''Unknown''
   \<and> (\<exists>run. main_run example_config env_du_fails = Some run
         \<and> Invoke ''get_directory_size'' \<in> set (trace (final run))
         \<and> success (outcome run) \<and> exit_code run = 0)"
proof -
  have e: "subprocess_run env_du_fails [''du'', ''-sh'', ''/var/lib/vz/dump'']
             = Fails ''timed out''"
    by (simp add: env_du_fails_def)
  then have d: "(\<exists>m. subprocess_run env_du_fails [''du'', ''-sh'', ''/var/lib/vz/dump''] = Fails m)
      \<or> (\<exists>rc out. subprocess_run env_du_fails [''du'', ''-sh'', ''/var/lib/vz/dump'']
                     = Ok (rc, out) \<and> rc \<noteq> 0)
      \<or> (\<exists>out. subprocess_run env_du_fails [''du'', ''-sh'', ''/var/lib/vz/dump'']
                  = Ok (0, out) \<and> str_split out = [])"
    by blast
  have n: "interrupt_at env_du_fails = None"
    by (simp add: env_du_fails_def example_env_def)
  from du_fails_run obtain run where
    r: "main_run example_config env_du_fails = Some run"
    and i: "Invoke ''get_directory_size'' \<in> set (trace (final run))"
    by blast
  from size_probe_best_effort [OF n d r i, of initial] e r i show ?thesis by auto
qed

theorem size_probe_best_effort_counterexample:
  "subprocess_run env_du_fails [''du'', ''-sh'', ''/var/lib/vz/dump''] = Fails ''timed out''
   \<and> fst (get_directory_size env_du_fails ''/var/lib/vz/dump'' initial) = Return ''Unknown''
   \<and> fst (get_directory_size env_du_fails ''/var/lib/vz/dump'' initial) \<noteq> Return ''unknown''"
  by (simp add: get_directory_size_def external_def emit_def initial_def env_du_fails_def
                example_env_def)

text \<open>
  C8, as amended. When a non-empty private key path is configured and the source directory
  exists (so that rsync is started): if the key file exists, the rsync process is given
  \<open>RSYNC_RSH = /usr/bin/ssh -i <key> -p <port>\<close> with the expanded key path and the
  configured port; if the key file does not exist, rsync is started with the environment
  of the process (\<open>env = None\<close>), that is with the ambient ssh defaults.
\<close>

theorem rsync_uses_configured_key:
  assumes "ssh_key n = Some k" and "k \<noteq> []"
    and "path_exists env (expanduser env k) = Ok key_exists"
    and "path_exists env (local_dir b) = Ok True"
  shows "filter is_popen (trace (snd (rsync_backup (fst (NASBackup_init env n b l s0)) env s)))
           = filter is_popen (trace s)
             @ [Popen ([''/usr/bin/rsync''] @ str_split (rsync_options b)
                       @ [local_dir b @ ''/'', ssh_user n @ ''@'' @ ip n @ '':'' @ nas_dir b @ ''/''])
                  (if key_exists
                   then Some (''/usr/bin/ssh -i '' @ expanduser env k @ '' -p ''
                              @ str_int (ssh_port n))
                   else None)]"
  using assms
  by (auto simp: rsync_backup_def NASBackup_init_def usable_key_def external_def Let_def
                 logging_def emit_def split: reply.splits prod.splits)

theorem rsync_uses_configured_key_witness:
  "ssh_key (nas example_config) = Some ''/root/.ssh/id_rsa''
   \<and> path_exists example_env ''/root/.ssh/id_rsa'' = Ok True
   \<and> filter is_popen (trace (snd (rsync_backup example_self example_env initial)))
       = [Popen [''/usr/bin/rsync'', ''-avhP'', ''--delete'', ''--checksum'',
                 ''/var/lib/vz/dump/'', ''admin@192.168.1.10:/volume1/backup/'']
            (Some ''/usr/bin/ssh -i /root/.ssh/id_rsa -p 22'')]
   \<and> path_exists env_no_keyfile ''/root/.ssh/id_rsa'' = Ok False
   \<and> filter is_popen (trace (snd (rsync_backup example_self env_no_keyfile initial)))
       = [Popen [''/usr/bin/rsync'', ''-avhP'', ''--delete'', ''--checksum'',
                 ''/var/lib/vz/dump/'', ''admin@192.168.1.10:/volume1/backup/'']
            None]"
proof -
  have k: "ssh_key (nas example_config) = Some ''/root/.ssh/id_rsa''"
    by (simp add: example_config_def)
  have ne: "''/root/.ssh/id_rsa'' \<noteq> []" by simp
  have e1: "path_exists example_env (expanduser example_env ''/root/.ssh/id_rsa'') = Ok True"
    by (simp add: example_env_def)
  have e2: "path_exists example_env (local_dir (backup example_config)) = Ok True"
    by (simp add: example_env_def)
  have self1: "example_self
      = fst (NASBackup_init example_env (nas example_config) (backup example_config)
               (log_cfg example_config) initial)"
    by (simp add: example_self_def)
  from rsync_uses_configured_key [OF k ne e1 e2, of "log_cfg example_config" initial initial]
  have 1: "filter is_popen (trace (snd (rsync_backup example_self example_env initial)))
       = [Popen [''/usr/bin/rsync'', ''-avhP'', ''--delete'', ''--checksum'',
                 ''/var/lib/vz/dump/'', ''admin@192.168.1.10:/volume1/backup/'']
            (Some ''/usr/bin/ssh -i /root/.ssh/id_rsa -p 22'')]"
    unfolding self1 [symmetric]
    by (simp add: example_config_def example_env_def initial_def example_split
                  str_int_def digit_def)
  have f1: "path_exists env_no_keyfile (expanduser env_no_keyfile ''/root/.ssh/id_rsa'')
              = Ok False"
    by (simp add: env_no_keyfile_def example_env_def)
  have f2: "path_exists env_no_keyfile (local_dir (backup example_config)) = Ok True"
    by (simp add: env_no_keyfile_def example_env_def example_config_def)
  have self2: "example_self
      = fst (NASBackup_init env_no_keyfile (nas example_config) (backup example_config)
               (log_cfg example_config) initial)"
    by (simp add: example_self_def NASBackup_init_def env_no_keyfile_def example_env_def
                  example_config_def)
  from rsync_uses_configured_key [OF k ne f1 f2, of "log_cfg example_config" initial initial]
  have 2: "filter is_popen (trace (snd (rsync_backup example_self env_no_keyfile initial)))
       = [Popen [''/usr/bin/rsync'', ''-avhP'', ''--delete'', ''--checksum'',
                 ''/var/lib/vz/dump/'', ''admin@192.168.1.10:/volume1/backup/'']
            None]"
    unfolding self2 [symmetric]
    by (simp add: example_config_def initial_def example_split)
  from k e1 f1 1 2 show ?thesis
    by (simp add: example_env_def env_no_keyfile_def)
qed

theorem rsync_uses_configured_key_counterexample:
  "ssh_key (nas example_config) = Some ''/root/.ssh/id_rsa''
   \<and> filter is_popen
        (trace (snd (rsync_backup (backup_of example_config env_no_keyfile) env_no_keyfile
                       initial)))
       = [Popen [''/usr/bin/rsync'', ''-avhP'', ''--delete'', ''--checksum'',
                 ''/var/lib/vz/dump/'', ''admin@192.168.1.10:/volume1/backup/''] None]"
  by (simp add: backup_of_def run_defs env_no_keyfile_def)

end
